theory Spec2Isabelle
  imports Complex_Main "HOL-Library.Word"
begin

section \<open>Python values used by the extractor scripts\<close>

text \<open>
  The scripts work on \<^verbatim>\<open>bytes\<close> objects and on \<^verbatim>\<open>str\<close> objects. A byte is an 8-bit
  word. A Python string is a sequence of Unicode code points, so it is modelled as a list
  of naturals; the hexadecimal strings the scripts build are kept as Isabelle strings.
\<close>

type_synonym byte = "8 word"
type_synonym pystr = "nat list"

definition ascii :: "string \<Rightarrow> pystr" where
  "ascii s = map of_char s"

text \<open>\<^verbatim>\<open>xs[i:j]\<close> for non-negative \<^verbatim>\<open>i\<close>, \<^verbatim>\<open>j\<close>: out-of-range bounds are clipped.\<close>

definition slice :: "'a list \<Rightarrow> nat \<Rightarrow> nat \<Rightarrow> 'a list" where
  "slice xs i j = take (j - i) (drop i xs)"

text \<open>
  \<^verbatim>\<open>data.find(sub, start)\<close>: the lowest index at or after \<^verbatim>\<open>start\<close> where \<^verbatim>\<open>sub\<close>
  occurs, or \<^verbatim>\<open>-1\<close>. The second argument of \<open>find_aux\<close> is the rest of the buffer, the
  third the index of its first byte.
\<close>

fun find_aux :: "byte list \<Rightarrow> byte list \<Rightarrow> nat \<Rightarrow> int" where
  "find_aux sub [] k = (if sub = [] then int k else -1)"
| "find_aux sub (x # xs) k =
     (if take (length sub) (x # xs) = sub then int k else find_aux sub xs (Suc k))"

definition bytes_find :: "byte list \<Rightarrow> byte list \<Rightarrow> nat \<Rightarrow> int" where
  "bytes_find data sub start =
     (if length data < start then -1 else find_aux sub (drop start data) start)"

text \<open>
  \<^verbatim>\<open>str.isspace\<close> of one character, as \<^verbatim>\<open>str.strip()\<close> uses it: the ASCII
  whitespace and separators, and the Unicode spaces.
\<close>

definition isspace :: "nat \<Rightarrow> bool" where
  "isspace c \<longleftrightarrow>
     (0x09 \<le> c \<and> c \<le> 0x0D) \<or> (0x1C \<le> c \<and> c \<le> 0x20) \<or> c = 0x85 \<or> c = 0xA0 \<or>
     c = 0x1680 \<or> (0x2000 \<le> c \<and> c \<le> 0x200A) \<or> c = 0x2028 \<or> c = 0x2029 \<or>
     c = 0x202F \<or> c = 0x205F \<or> c = 0x3000"

definition py_strip :: "pystr \<Rightarrow> pystr" where
  "py_strip s = rev (dropWhile isspace (rev (dropWhile isspace s)))"

text \<open>\<^verbatim>\<open>s.rstrip('\x00')\<close>\<close>

definition rstrip_nul :: "pystr \<Rightarrow> pystr" where
  "rstrip_nul s = rev (dropWhile (\<lambda>c. c = 0) (rev s))"

text \<open>
  \<^verbatim>\<open>str.isprintable\<close> of one character. A character is not printable when its Unicode
  general category is Cc, Cf, Cs, Co, Cn, Zl, Zp or Zs, the ASCII space apart. The table
  lists the code point ranges of those categories (Unicode 14.0, the character database of
  CPython 3.11).
\<close>

definition nonprintable_ranges :: "(nat \<times> nat) list" where
  "nonprintable_ranges = [
    (0x0, 0x1F), (0x7F, 0xA0), (0xAD, 0xAD), (0x378, 0x379), (0x380, 0x383), (0x38B, 0x38B),
    (0x38D, 0x38D), (0x3A2, 0x3A2), (0x530, 0x530), (0x557, 0x558), (0x58B, 0x58C),
    (0x590, 0x590), (0x5C8, 0x5CF), (0x5EB, 0x5EE), (0x5F5, 0x605), (0x61C, 0x61C),
    (0x6DD, 0x6DD), (0x70E, 0x70F), (0x74B, 0x74C), (0x7B2, 0x7BF), (0x7FB, 0x7FC),
    (0x82E, 0x82F), (0x83F, 0x83F), (0x85C, 0x85D), (0x85F, 0x85F), (0x86B, 0x86F),
    (0x88F, 0x897), (0x8E2, 0x8E2), (0x984, 0x984), (0x98D, 0x98E), (0x991, 0x992),
    (0x9A9, 0x9A9), (0x9B1, 0x9B1), (0x9B3, 0x9B5), (0x9BA, 0x9BB), (0x9C5, 0x9C6),
    (0x9C9, 0x9CA), (0x9CF, 0x9D6), (0x9D8, 0x9DB), (0x9DE, 0x9DE), (0x9E4, 0x9E5),
    (0x9FF, 0xA00), (0xA04, 0xA04), (0xA0B, 0xA0E), (0xA11, 0xA12), (0xA29, 0xA29),
    (0xA31, 0xA31), (0xA34, 0xA34), (0xA37, 0xA37), (0xA3A, 0xA3B), (0xA3D, 0xA3D),
    (0xA43, 0xA46), (0xA49, 0xA4A), (0xA4E, 0xA50), (0xA52, 0xA58), (0xA5D, 0xA5D),
    (0xA5F, 0xA65), (0xA77, 0xA80), (0xA84, 0xA84), (0xA8E, 0xA8E), (0xA92, 0xA92),
    (0xAA9, 0xAA9), (0xAB1, 0xAB1), (0xAB4, 0xAB4), (0xABA, 0xABB), (0xAC6, 0xAC6),
    (0xACA, 0xACA), (0xACE, 0xACF), (0xAD1, 0xADF), (0xAE4, 0xAE5), (0xAF2, 0xAF8),
    (0xB00, 0xB00), (0xB04, 0xB04), (0xB0D, 0xB0E), (0xB11, 0xB12), (0xB29, 0xB29),
    (0xB31, 0xB31), (0xB34, 0xB34), (0xB3A, 0xB3B), (0xB45, 0xB46), (0xB49, 0xB4A),
    (0xB4E, 0xB54), (0xB58, 0xB5B), (0xB5E, 0xB5E), (0xB64, 0xB65), (0xB78, 0xB81),
    (0xB84, 0xB84), (0xB8B, 0xB8D), (0xB91, 0xB91), (0xB96, 0xB98), (0xB9B, 0xB9B),
    (0xB9D, 0xB9D), (0xBA0, 0xBA2), (0xBA5, 0xBA7), (0xBAB, 0xBAD), (0xBBA, 0xBBD),
    (0xBC3, 0xBC5), (0xBC9, 0xBC9), (0xBCE, 0xBCF), (0xBD1, 0xBD6), (0xBD8, 0xBE5),
    (0xBFB, 0xBFF), (0xC0D, 0xC0D), (0xC11, 0xC11), (0xC29, 0xC29), (0xC3A, 0xC3B),
    (0xC45, 0xC45), (0xC49, 0xC49), (0xC4E, 0xC54), (0xC57, 0xC57), (0xC5B, 0xC5C),
    (0xC5E, 0xC5F), (0xC64, 0xC65), (0xC70, 0xC76), (0xC8D, 0xC8D), (0xC91, 0xC91),
    (0xCA9, 0xCA9), (0xCB4, 0xCB4), (0xCBA, 0xCBB), (0xCC5, 0xCC5), (0xCC9, 0xCC9),
    (0xCCE, 0xCD4), (0xCD7, 0xCDC), (0xCDF, 0xCDF), (0xCE4, 0xCE5), (0xCF0, 0xCF0),
    (0xCF3, 0xCFF), (0xD0D, 0xD0D), (0xD11, 0xD11), (0xD45, 0xD45), (0xD49, 0xD49),
    (0xD50, 0xD53), (0xD64, 0xD65), (0xD80, 0xD80), (0xD84, 0xD84), (0xD97, 0xD99),
    (0xDB2, 0xDB2), (0xDBC, 0xDBC), (0xDBE, 0xDBF), (0xDC7, 0xDC9), (0xDCB, 0xDCE),
    (0xDD5, 0xDD5), (0xDD7, 0xDD7), (0xDE0, 0xDE5), (0xDF0, 0xDF1), (0xDF5, 0xE00),
    (0xE3B, 0xE3E), (0xE5C, 0xE80), (0xE83, 0xE83), (0xE85, 0xE85), (0xE8B, 0xE8B),
    (0xEA4, 0xEA4), (0xEA6, 0xEA6), (0xEBE, 0xEBF), (0xEC5, 0xEC5), (0xEC7, 0xEC7),
    (0xECE, 0xECF), (0xEDA, 0xEDB), (0xEE0, 0xEFF), (0xF48, 0xF48), (0xF6D, 0xF70),
    (0xF98, 0xF98), (0xFBD, 0xFBD), (0xFCD, 0xFCD), (0xFDB, 0xFFF), (0x10C6, 0x10C6),
    (0x10C8, 0x10CC), (0x10CE, 0x10CF), (0x1249, 0x1249), (0x124E, 0x124F), (0x1257, 0x1257),
    (0x1259, 0x1259), (0x125E, 0x125F), (0x1289, 0x1289), (0x128E, 0x128F), (0x12B1, 0x12B1),
    (0x12B6, 0x12B7), (0x12BF, 0x12BF), (0x12C1, 0x12C1), (0x12C6, 0x12C7), (0x12D7, 0x12D7),
    (0x1311, 0x1311), (0x1316, 0x1317), (0x135B, 0x135C), (0x137D, 0x137F), (0x139A, 0x139F),
    (0x13F6, 0x13F7), (0x13FE, 0x13FF), (0x1680, 0x1680), (0x169D, 0x169F), (0x16F9, 0x16FF),
    (0x1716, 0x171E), (0x1737, 0x173F), (0x1754, 0x175F), (0x176D, 0x176D), (0x1771, 0x1771),
    (0x1774, 0x177F), (0x17DE, 0x17DF), (0x17EA, 0x17EF), (0x17FA, 0x17FF), (0x180E, 0x180E),
    (0x181A, 0x181F), (0x1879, 0x187F), (0x18AB, 0x18AF), (0x18F6, 0x18FF), (0x191F, 0x191F),
    (0x192C, 0x192F), (0x193C, 0x193F), (0x1941, 0x1943), (0x196E, 0x196F), (0x1975, 0x197F),
    (0x19AC, 0x19AF), (0x19CA, 0x19CF), (0x19DB, 0x19DD), (0x1A1C, 0x1A1D), (0x1A5F, 0x1A5F),
    (0x1A7D, 0x1A7E), (0x1A8A, 0x1A8F), (0x1A9A, 0x1A9F), (0x1AAE, 0x1AAF), (0x1ACF, 0x1AFF),
    (0x1B4D, 0x1B4F), (0x1B7F, 0x1B7F), (0x1BF4, 0x1BFB), (0x1C38, 0x1C3A), (0x1C4A, 0x1C4C),
    (0x1C89, 0x1C8F), (0x1CBB, 0x1CBC), (0x1CC8, 0x1CCF), (0x1CFB, 0x1CFF), (0x1F16, 0x1F17),
    (0x1F1E, 0x1F1F), (0x1F46, 0x1F47), (0x1F4E, 0x1F4F), (0x1F58, 0x1F58), (0x1F5A, 0x1F5A),
    (0x1F5C, 0x1F5C), (0x1F5E, 0x1F5E), (0x1F7E, 0x1F7F), (0x1FB5, 0x1FB5), (0x1FC5, 0x1FC5),
    (0x1FD4, 0x1FD5), (0x1FDC, 0x1FDC), (0x1FF0, 0x1FF1), (0x1FF5, 0x1FF5), (0x1FFF, 0x200F),
    (0x2028, 0x202F), (0x205F, 0x206F), (0x2072, 0x2073), (0x208F, 0x208F), (0x209D, 0x209F),
    (0x20C1, 0x20CF), (0x20F1, 0x20FF), (0x218C, 0x218F), (0x2427, 0x243F), (0x244B, 0x245F),
    (0x2B74, 0x2B75), (0x2B96, 0x2B96), (0x2CF4, 0x2CF8), (0x2D26, 0x2D26), (0x2D28, 0x2D2C),
    (0x2D2E, 0x2D2F), (0x2D68, 0x2D6E), (0x2D71, 0x2D7E), (0x2D97, 0x2D9F), (0x2DA7, 0x2DA7),
    (0x2DAF, 0x2DAF), (0x2DB7, 0x2DB7), (0x2DBF, 0x2DBF), (0x2DC7, 0x2DC7), (0x2DCF, 0x2DCF),
    (0x2DD7, 0x2DD7), (0x2DDF, 0x2DDF), (0x2E5E, 0x2E7F), (0x2E9A, 0x2E9A), (0x2EF4, 0x2EFF),
    (0x2FD6, 0x2FEF), (0x2FFC, 0x3000), (0x3040, 0x3040), (0x3097, 0x3098), (0x3100, 0x3104),
    (0x3130, 0x3130), (0x318F, 0x318F), (0x31E4, 0x31EF), (0x321F, 0x321F), (0xA48D, 0xA48F),
    (0xA4C7, 0xA4CF), (0xA62C, 0xA63F), (0xA6F8, 0xA6FF), (0xA7CB, 0xA7CF), (0xA7D2, 0xA7D2),
    (0xA7D4, 0xA7D4), (0xA7DA, 0xA7F1), (0xA82D, 0xA82F), (0xA83A, 0xA83F), (0xA878, 0xA87F),
    (0xA8C6, 0xA8CD), (0xA8DA, 0xA8DF), (0xA954, 0xA95E), (0xA97D, 0xA97F), (0xA9CE, 0xA9CE),
    (0xA9DA, 0xA9DD), (0xA9FF, 0xA9FF), (0xAA37, 0xAA3F), (0xAA4E, 0xAA4F), (0xAA5A, 0xAA5B),
    (0xAAC3, 0xAADA), (0xAAF7, 0xAB00), (0xAB07, 0xAB08), (0xAB0F, 0xAB10), (0xAB17, 0xAB1F),
    (0xAB27, 0xAB27), (0xAB2F, 0xAB2F), (0xAB6C, 0xAB6F), (0xABEE, 0xABEF), (0xABFA, 0xABFF),
    (0xD7A4, 0xD7AF), (0xD7C7, 0xD7CA), (0xD7FC, 0xF8FF), (0xFA6E, 0xFA6F), (0xFADA, 0xFAFF),
    (0xFB07, 0xFB12), (0xFB18, 0xFB1C), (0xFB37, 0xFB37), (0xFB3D, 0xFB3D), (0xFB3F, 0xFB3F),
    (0xFB42, 0xFB42), (0xFB45, 0xFB45), (0xFBC3, 0xFBD2), (0xFD90, 0xFD91), (0xFDC8, 0xFDCE),
    (0xFDD0, 0xFDEF), (0xFE1A, 0xFE1F), (0xFE53, 0xFE53), (0xFE67, 0xFE67), (0xFE6C, 0xFE6F),
    (0xFE75, 0xFE75), (0xFEFD, 0xFF00), (0xFFBF, 0xFFC1), (0xFFC8, 0xFFC9), (0xFFD0, 0xFFD1),
    (0xFFD8, 0xFFD9), (0xFFDD, 0xFFDF), (0xFFE7, 0xFFE7), (0xFFEF, 0xFFFB), (0xFFFE, 0xFFFF),
    (0x1000C, 0x1000C), (0x10027, 0x10027), (0x1003B, 0x1003B), (0x1003E, 0x1003E),
    (0x1004E, 0x1004F), (0x1005E, 0x1007F), (0x100FB, 0x100FF), (0x10103, 0x10106),
    (0x10134, 0x10136), (0x1018F, 0x1018F), (0x1019D, 0x1019F), (0x101A1, 0x101CF),
    (0x101FE, 0x1027F), (0x1029D, 0x1029F), (0x102D1, 0x102DF), (0x102FC, 0x102FF),
    (0x10324, 0x1032C), (0x1034B, 0x1034F), (0x1037B, 0x1037F), (0x1039E, 0x1039E),
    (0x103C4, 0x103C7), (0x103D6, 0x103FF), (0x1049E, 0x1049F), (0x104AA, 0x104AF),
    (0x104D4, 0x104D7), (0x104FC, 0x104FF), (0x10528, 0x1052F), (0x10564, 0x1056E),
    (0x1057B, 0x1057B), (0x1058B, 0x1058B), (0x10593, 0x10593), (0x10596, 0x10596),
    (0x105A2, 0x105A2), (0x105B2, 0x105B2), (0x105BA, 0x105BA), (0x105BD, 0x105FF),
    (0x10737, 0x1073F), (0x10756, 0x1075F), (0x10768, 0x1077F), (0x10786, 0x10786),
    (0x107B1, 0x107B1), (0x107BB, 0x107FF), (0x10806, 0x10807), (0x10809, 0x10809),
    (0x10836, 0x10836), (0x10839, 0x1083B), (0x1083D, 0x1083E), (0x10856, 0x10856),
    (0x1089F, 0x108A6), (0x108B0, 0x108DF), (0x108F3, 0x108F3), (0x108F6, 0x108FA),
    (0x1091C, 0x1091E), (0x1093A, 0x1093E), (0x10940, 0x1097F), (0x109B8, 0x109BB),
    (0x109D0, 0x109D1), (0x10A04, 0x10A04), (0x10A07, 0x10A0B), (0x10A14, 0x10A14),
    (0x10A18, 0x10A18), (0x10A36, 0x10A37), (0x10A3B, 0x10A3E), (0x10A49, 0x10A4F),
    (0x10A59, 0x10A5F), (0x10AA0, 0x10ABF), (0x10AE7, 0x10AEA), (0x10AF7, 0x10AFF),
    (0x10B36, 0x10B38), (0x10B56, 0x10B57), (0x10B73, 0x10B77), (0x10B92, 0x10B98),
    (0x10B9D, 0x10BA8), (0x10BB0, 0x10BFF), (0x10C49, 0x10C7F), (0x10CB3, 0x10CBF),
    (0x10CF3, 0x10CF9), (0x10D28, 0x10D2F), (0x10D3A, 0x10E5F), (0x10E7F, 0x10E7F),
    (0x10EAA, 0x10EAA), (0x10EAE, 0x10EAF), (0x10EB2, 0x10EFF), (0x10F28, 0x10F2F),
    (0x10F5A, 0x10F6F), (0x10F8A, 0x10FAF), (0x10FCC, 0x10FDF), (0x10FF7, 0x10FFF),
    (0x1104E, 0x11051), (0x11076, 0x1107E), (0x110BD, 0x110BD), (0x110C3, 0x110CF),
    (0x110E9, 0x110EF), (0x110FA, 0x110FF), (0x11135, 0x11135), (0x11148, 0x1114F),
    (0x11177, 0x1117F), (0x111E0, 0x111E0), (0x111F5, 0x111FF), (0x11212, 0x11212),
    (0x1123F, 0x1127F), (0x11287, 0x11287), (0x11289, 0x11289), (0x1128E, 0x1128E),
    (0x1129E, 0x1129E), (0x112AA, 0x112AF), (0x112EB, 0x112EF), (0x112FA, 0x112FF),
    (0x11304, 0x11304), (0x1130D, 0x1130E), (0x11311, 0x11312), (0x11329, 0x11329),
    (0x11331, 0x11331), (0x11334, 0x11334), (0x1133A, 0x1133A), (0x11345, 0x11346),
    (0x11349, 0x1134A), (0x1134E, 0x1134F), (0x11351, 0x11356), (0x11358, 0x1135C),
    (0x11364, 0x11365), (0x1136D, 0x1136F), (0x11375, 0x113FF), (0x1145C, 0x1145C),
    (0x11462, 0x1147F), (0x114C8, 0x114CF), (0x114DA, 0x1157F), (0x115B6, 0x115B7),
    (0x115DE, 0x115FF), (0x11645, 0x1164F), (0x1165A, 0x1165F), (0x1166D, 0x1167F),
    (0x116BA, 0x116BF), (0x116CA, 0x116FF), (0x1171B, 0x1171C), (0x1172C, 0x1172F),
    (0x11747, 0x117FF), (0x1183C, 0x1189F), (0x118F3, 0x118FE), (0x11907, 0x11908),
    (0x1190A, 0x1190B), (0x11914, 0x11914), (0x11917, 0x11917), (0x11936, 0x11936),
    (0x11939, 0x1193A), (0x11947, 0x1194F), (0x1195A, 0x1199F), (0x119A8, 0x119A9),
    (0x119D8, 0x119D9), (0x119E5, 0x119FF), (0x11A48, 0x11A4F), (0x11AA3, 0x11AAF),
    (0x11AF9, 0x11BFF), (0x11C09, 0x11C09), (0x11C37, 0x11C37), (0x11C46, 0x11C4F),
    (0x11C6D, 0x11C6F), (0x11C90, 0x11C91), (0x11CA8, 0x11CA8), (0x11CB7, 0x11CFF),
    (0x11D07, 0x11D07), (0x11D0A, 0x11D0A), (0x11D37, 0x11D39), (0x11D3B, 0x11D3B),
    (0x11D3E, 0x11D3E), (0x11D48, 0x11D4F), (0x11D5A, 0x11D5F), (0x11D66, 0x11D66),
    (0x11D69, 0x11D69), (0x11D8F, 0x11D8F), (0x11D92, 0x11D92), (0x11D99, 0x11D9F),
    (0x11DAA, 0x11EDF), (0x11EF9, 0x11FAF), (0x11FB1, 0x11FBF), (0x11FF2, 0x11FFE),
    (0x1239A, 0x123FF), (0x1246F, 0x1246F), (0x12475, 0x1247F), (0x12544, 0x12F8F),
    (0x12FF3, 0x12FFF), (0x1342F, 0x143FF), (0x14647, 0x167FF), (0x16A39, 0x16A3F),
    (0x16A5F, 0x16A5F), (0x16A6A, 0x16A6D), (0x16ABF, 0x16ABF), (0x16ACA, 0x16ACF),
    (0x16AEE, 0x16AEF), (0x16AF6, 0x16AFF), (0x16B46, 0x16B4F), (0x16B5A, 0x16B5A),
    (0x16B62, 0x16B62), (0x16B78, 0x16B7C), (0x16B90, 0x16E3F), (0x16E9B, 0x16EFF),
    (0x16F4B, 0x16F4E), (0x16F88, 0x16F8E), (0x16FA0, 0x16FDF), (0x16FE5, 0x16FEF),
    (0x16FF2, 0x16FFF), (0x187F8, 0x187FF), (0x18CD6, 0x18CFF), (0x18D09, 0x1AFEF),
    (0x1AFF4, 0x1AFF4), (0x1AFFC, 0x1AFFC), (0x1AFFF, 0x1AFFF), (0x1B123, 0x1B14F),
    (0x1B153, 0x1B163), (0x1B168, 0x1B16F), (0x1B2FC, 0x1BBFF), (0x1BC6B, 0x1BC6F),
    (0x1BC7D, 0x1BC7F), (0x1BC89, 0x1BC8F), (0x1BC9A, 0x1BC9B), (0x1BCA0, 0x1CEFF),
    (0x1CF2E, 0x1CF2F), (0x1CF47, 0x1CF4F), (0x1CFC4, 0x1CFFF), (0x1D0F6, 0x1D0FF),
    (0x1D127, 0x1D128), (0x1D173, 0x1D17A), (0x1D1EB, 0x1D1FF), (0x1D246, 0x1D2DF),
    (0x1D2F4, 0x1D2FF), (0x1D357, 0x1D35F), (0x1D379, 0x1D3FF), (0x1D455, 0x1D455),
    (0x1D49D, 0x1D49D), (0x1D4A0, 0x1D4A1), (0x1D4A3, 0x1D4A4), (0x1D4A7, 0x1D4A8),
    (0x1D4AD, 0x1D4AD), (0x1D4BA, 0x1D4BA), (0x1D4BC, 0x1D4BC), (0x1D4C4, 0x1D4C4),
    (0x1D506, 0x1D506), (0x1D50B, 0x1D50C), (0x1D515, 0x1D515), (0x1D51D, 0x1D51D),
    (0x1D53A, 0x1D53A), (0x1D53F, 0x1D53F), (0x1D545, 0x1D545), (0x1D547, 0x1D549),
    (0x1D551, 0x1D551), (0x1D6A6, 0x1D6A7), (0x1D7CC, 0x1D7CD), (0x1DA8C, 0x1DA9A),
    (0x1DAA0, 0x1DAA0), (0x1DAB0, 0x1DEFF), (0x1DF1F, 0x1DFFF), (0x1E007, 0x1E007),
    (0x1E019, 0x1E01A), (0x1E022, 0x1E022), (0x1E025, 0x1E025), (0x1E02B, 0x1E0FF),
    (0x1E12D, 0x1E12F), (0x1E13E, 0x1E13F), (0x1E14A, 0x1E14D), (0x1E150, 0x1E28F),
    (0x1E2AF, 0x1E2BF), (0x1E2FA, 0x1E2FE), (0x1E300, 0x1E7DF), (0x1E7E7, 0x1E7E7),
    (0x1E7EC, 0x1E7EC), (0x1E7EF, 0x1E7EF), (0x1E7FF, 0x1E7FF), (0x1E8C5, 0x1E8C6),
    (0x1E8D7, 0x1E8FF), (0x1E94C, 0x1E94F), (0x1E95A, 0x1E95D), (0x1E960, 0x1EC70),
    (0x1ECB5, 0x1ED00), (0x1ED3E, 0x1EDFF), (0x1EE04, 0x1EE04), (0x1EE20, 0x1EE20),
    (0x1EE23, 0x1EE23), (0x1EE25, 0x1EE26), (0x1EE28, 0x1EE28), (0x1EE33, 0x1EE33),
    (0x1EE38, 0x1EE38), (0x1EE3A, 0x1EE3A), (0x1EE3C, 0x1EE41), (0x1EE43, 0x1EE46),
    (0x1EE48, 0x1EE48), (0x1EE4A, 0x1EE4A), (0x1EE4C, 0x1EE4C), (0x1EE50, 0x1EE50),
    (0x1EE53, 0x1EE53), (0x1EE55, 0x1EE56), (0x1EE58, 0x1EE58), (0x1EE5A, 0x1EE5A),
    (0x1EE5C, 0x1EE5C), (0x1EE5E, 0x1EE5E), (0x1EE60, 0x1EE60), (0x1EE63, 0x1EE63),
    (0x1EE65, 0x1EE66), (0x1EE6B, 0x1EE6B), (0x1EE73, 0x1EE73), (0x1EE78, 0x1EE78),
    (0x1EE7D, 0x1EE7D), (0x1EE7F, 0x1EE7F), (0x1EE8A, 0x1EE8A), (0x1EE9C, 0x1EEA0),
    (0x1EEA4, 0x1EEA4), (0x1EEAA, 0x1EEAA), (0x1EEBC, 0x1EEEF), (0x1EEF2, 0x1EFFF),
    (0x1F02C, 0x1F02F), (0x1F094, 0x1F09F), (0x1F0AF, 0x1F0B0), (0x1F0C0, 0x1F0C0),
    (0x1F0D0, 0x1F0D0), (0x1F0F6, 0x1F0FF), (0x1F1AE, 0x1F1E5), (0x1F203, 0x1F20F),
    (0x1F23C, 0x1F23F), (0x1F249, 0x1F24F), (0x1F252, 0x1F25F), (0x1F266, 0x1F2FF),
    (0x1F6D8, 0x1F6DC), (0x1F6ED, 0x1F6EF), (0x1F6FD, 0x1F6FF), (0x1F774, 0x1F77F),
    (0x1F7D9, 0x1F7DF), (0x1F7EC, 0x1F7EF), (0x1F7F1, 0x1F7FF), (0x1F80C, 0x1F80F),
    (0x1F848, 0x1F84F), (0x1F85A, 0x1F85F), (0x1F888, 0x1F88F), (0x1F8AE, 0x1F8AF),
    (0x1F8B2, 0x1F8FF), (0x1FA54, 0x1FA5F), (0x1FA6E, 0x1FA6F), (0x1FA75, 0x1FA77),
    (0x1FA7D, 0x1FA7F), (0x1FA87, 0x1FA8F), (0x1FAAD, 0x1FAAF), (0x1FABB, 0x1FABF),
    (0x1FAC6, 0x1FACF), (0x1FADA, 0x1FADF), (0x1FAE8, 0x1FAEF), (0x1FAF7, 0x1FAFF),
    (0x1FB93, 0x1FB93), (0x1FBCB, 0x1FBEF), (0x1FBFA, 0x1FFFF), (0x2A6E0, 0x2A6FF),
    (0x2B739, 0x2B73F), (0x2B81E, 0x2B81F), (0x2CEA2, 0x2CEAF), (0x2EBE1, 0x2F7FF),
    (0x2FA1E, 0x2FFFF), (0x3134B, 0xE00FF), (0xE01F0, 0x10FFFF)
   ]"

definition isprintable :: "nat \<Rightarrow> bool" where
  "isprintable c \<longleftrightarrow> \<not> list_ex (\<lambda>(lo, hi). lo \<le> c \<and> c \<le> hi) nonprintable_ranges"

text \<open>
  The decimal digits of Unicode (category Nd) come in runs of ten consecutive code points,
  zero first; \<^verbatim>\<open>int()\<close> accepts any of them.
\<close>

definition decimal_ranges :: "(nat \<times> nat) list" where
  "decimal_ranges = [
    (0x30, 0x39), (0x660, 0x669), (0x6F0, 0x6F9), (0x7C0, 0x7C9), (0x966, 0x96F),
    (0x9E6, 0x9EF), (0xA66, 0xA6F), (0xAE6, 0xAEF), (0xB66, 0xB6F), (0xBE6, 0xBEF),
    (0xC66, 0xC6F), (0xCE6, 0xCEF), (0xD66, 0xD6F), (0xDE6, 0xDEF), (0xE50, 0xE59),
    (0xED0, 0xED9), (0xF20, 0xF29), (0x1040, 0x1049), (0x1090, 0x1099), (0x17E0, 0x17E9),
    (0x1810, 0x1819), (0x1946, 0x194F), (0x19D0, 0x19D9), (0x1A80, 0x1A89), (0x1A90, 0x1A99),
    (0x1B50, 0x1B59), (0x1BB0, 0x1BB9), (0x1C40, 0x1C49), (0x1C50, 0x1C59), (0xA620, 0xA629),
    (0xA8D0, 0xA8D9), (0xA900, 0xA909), (0xA9D0, 0xA9D9), (0xA9F0, 0xA9F9), (0xAA50, 0xAA59),
    (0xABF0, 0xABF9), (0xFF10, 0xFF19), (0x104A0, 0x104A9), (0x10D30, 0x10D39),
    (0x11066, 0x1106F), (0x110F0, 0x110F9), (0x11136, 0x1113F), (0x111D0, 0x111D9),
    (0x112F0, 0x112F9), (0x11450, 0x11459), (0x114D0, 0x114D9), (0x11650, 0x11659),
    (0x116C0, 0x116C9), (0x11730, 0x11739), (0x118E0, 0x118E9), (0x11950, 0x11959),
    (0x11C50, 0x11C59), (0x11D50, 0x11D59), (0x11DA0, 0x11DA9), (0x16A60, 0x16A69),
    (0x16AC0, 0x16AC9), (0x16B50, 0x16B59), (0x1D7CE, 0x1D7FF), (0x1E140, 0x1E149),
    (0x1E2F0, 0x1E2F9), (0x1E950, 0x1E959), (0x1FBF0, 0x1FBF9)
   ]"

fun decimal_in :: "(nat \<times> nat) list \<Rightarrow> nat \<Rightarrow> nat option" where
  "decimal_in [] c = None"
| "decimal_in ((lo, hi) # rs) c =
     (if lo \<le> c \<and> c \<le> hi then Some ((c - lo) mod 10) else decimal_in rs c)"

definition to_decimal :: "nat \<Rightarrow> nat option" where
  "to_decimal c = decimal_in decimal_ranges c"

section \<open>Frame conversions (\<^verbatim>\<open>code/kurohyou_csv_extractor.py\<close>)\<close>

text \<open>
  Python's floats are modelled by the rationals: \<^verbatim>\<open>/\<close> is the exact quotient, and the
  rounding of a quotient to the nearest double is left out.
\<close>

definition KUROHYOU_FPS :: rat where
  "KUROHYOU_FPS = 30"

text \<open>The argument is an \<^verbatim>\<open>int\<close> at most call sites and a quotient at one.\<close>

definition frames_to_seconds :: "rat \<Rightarrow> rat" where
  "frames_to_seconds frames = (if frames > 0 then frames / KUROHYOU_FPS else 0)"









section \<open>The timed-cue reader (\<^verbatim>\<open>_extract_csv_data\<close>)\<close>

text \<open>\<^verbatim>\<open>s.split(sep, maxsplit)\<close> for a one-character separator.\<close>

fun split_max :: "nat \<Rightarrow> nat \<Rightarrow> pystr \<Rightarrow> pystr list" where
  "split_max sep 0 s = [s]"
| "split_max sep (Suc n) s =
     (if sep \<in> set s
      then takeWhile (\<lambda>c. c \<noteq> sep) s # split_max sep n (tl (dropWhile (\<lambda>c. c \<noteq> sep) s))
      else [s])"

text \<open>
  \<^verbatim>\<open>int(s)\<close> of a string. CPython first maps every non-ASCII space to a blank and every
  non-ASCII decimal digit to its ASCII digit; a character that is neither makes the
  conversion fail. The result is then read in base 10: blanks (the C whitespace only),
  an optional sign, digits with single underscores between them, blanks. More than 4300
  digits are refused (the interpreter's default limit). \<open>None\<close> stands for
  \<^verbatim>\<open>ValueError\<close>.
\<close>

definition is_ascii_space :: "nat \<Rightarrow> bool" where
  "is_ascii_space c \<longleftrightarrow> (9 \<le> c \<and> c \<le> 13) \<or> c = 32"

definition is_digit :: "nat \<Rightarrow> bool" where
  "is_digit c \<longleftrightarrow> 48 \<le> c \<and> c \<le> 57"

definition to_ascii_decimal_space :: "nat \<Rightarrow> nat option" where
  "to_ascii_decimal_space c =
     (if c < 127 then Some c
      else if isspace c then Some 32
      else map_option (\<lambda>d. 48 + d) (to_decimal c))"

fun double_underscore :: "nat list \<Rightarrow> bool" where
  "double_underscore (a # b # cs) = ((a = 95 \<and> b = 95) \<or> double_underscore (b # cs))"
| "double_underscore _ = False"

definition digits_value :: "nat list \<Rightarrow> nat" where
  "digits_value ds = foldl (\<lambda>acc c. 10 * acc + (c - 48)) 0 ds"

definition long_from_string :: "nat list \<Rightarrow> int option" where
  "long_from_string s =
     (let s1 = dropWhile is_ascii_space s;
          negative = (s1 \<noteq> [] \<and> hd s1 = 45);
          s2 = (if s1 \<noteq> [] \<and> (hd s1 = 43 \<or> hd s1 = 45) then tl s1 else s1);
          body = takeWhile (\<lambda>c. is_digit c \<or> c = 95) s2;
          rest = dropWhile (\<lambda>c. is_digit c \<or> c = 95) s2;
          ds = filter is_digit body
      in if body = [] \<or> hd body = 95 \<or> last body = 95 \<or> double_underscore body \<or>
            4300 < length ds \<or> dropWhile is_ascii_space rest \<noteq> []
         then None
         else Some (if negative then - int (digits_value ds) else int (digits_value ds)))"

definition py_int :: "pystr \<Rightarrow> int option" where
  "py_int s =
     (case those (map to_ascii_decimal_space s) of
        None \<Rightarrow> None
      | Some t \<Rightarrow> long_from_string t)"

record line_data =
  line_id :: nat
  start_time :: int
  end_time :: int
  cue_text :: pystr
  duration :: int
  is_pause :: bool

text \<open>The local variables of the reading loop.\<close>

record csv_state =
  st_lines :: "line_data list"
  st_dialogue_lines :: nat
  st_pause_lines :: nat
  st_total_chars :: nat
  st_total_duration :: int

record csv_stats =
  total_lines :: nat
  dialogue_lines :: nat
  pause_lines :: nat
  total_chars :: nat
  avg_chars :: rat
  total_duration_frames :: int
  avg_duration_frames :: rat
  total_duration_seconds :: rat
  avg_duration_seconds :: rat

record csv_data =
  csv_lines :: "line_data list"
  csv_stats :: csv_stats

definition csv_init :: csv_state where
  "csv_init = \<lparr>st_lines = [], st_dialogue_lines = 0, st_pause_lines = 0,
               st_total_chars = 0, st_total_duration = 0\<rparr>"

text \<open>
  One iteration of the loop over \<^verbatim>\<open>enumerate(file, 1)\<close>. A \<^verbatim>\<open>ValueError\<close> of
  \<^verbatim>\<open>int()\<close> is caught and the loop continues; nothing has been changed by then.
\<close>

definition csv_step :: "csv_state \<Rightarrow> nat \<times> pystr \<Rightarrow> csv_state" where
  "csv_step st nl =
     (let line_num = fst nl; line = py_strip (snd nl) in
      if line = [] then st
      else
        let parts = split_max 44 2 line in
        if 3 \<le> length parts then
          (case py_int (parts ! 0) of
             None \<Rightarrow> st
           | Some start_t \<Rightarrow>
               (case py_int (parts ! 1) of
                  None \<Rightarrow> st
                | Some end_t \<Rightarrow>
                    let txt = parts ! 2;
                        ld = \<lparr>line_id = line_num, start_time = start_t, end_time = end_t,
                              cue_text = txt,
                              duration = (if start_t \<noteq> -1 \<and> end_t \<noteq> -1 then end_t - start_t else 0),
                              is_pause = (start_t = -1 \<and> end_t = -1)\<rparr>
                    in if is_pause ld
                       then st\<lparr>st_lines := st_lines st @ [ld],
                               st_pause_lines := st_pause_lines st + 1\<rparr>
                       else st\<lparr>st_lines := st_lines st @ [ld],
                               st_dialogue_lines := st_dialogue_lines st + 1,
                               st_total_chars := st_total_chars st + length txt,
                               st_total_duration := st_total_duration st + duration ld\<rparr>))
        else st)"

definition make_stats :: "csv_state \<Rightarrow> csv_stats" where
  "make_stats st =
     \<lparr>total_lines = length (st_lines st),
      dialogue_lines = st_dialogue_lines st,
      pause_lines = st_pause_lines st,
      total_chars = st_total_chars st,
      avg_chars = (if st_dialogue_lines st > 0
                   then of_nat (st_total_chars st) / of_nat (st_dialogue_lines st) else 0),
      total_duration_frames = st_total_duration st,
      avg_duration_frames = (if st_dialogue_lines st > 0
                   then of_int (st_total_duration st) / of_nat (st_dialogue_lines st) else 0),
      total_duration_seconds = frames_to_seconds (of_int (st_total_duration st)),
      avg_duration_seconds = (if st_dialogue_lines st > 0
                   then frames_to_seconds
                          (of_int (st_total_duration st) / of_nat (st_dialogue_lines st))
                   else 0)\<rparr>"

text \<open>The argument is the sequence of lines the file iterator yields.\<close>

definition extract_csv_data :: "pystr list \<Rightarrow> csv_data" where
  "extract_csv_data file =
     (let st = foldl csv_step csv_init (zip [1 ..< Suc (length file)] file)
      in \<lparr>csv_lines = st_lines st, csv_stats = make_stats st\<rparr>)"



definition cue_ok :: "line_data \<Rightarrow> bool" where
  "cue_ok l \<longleftrightarrow>
     (is_pause l \<longleftrightarrow> start_time l = -1 \<and> end_time l = -1) \<and>
     duration l =
       (if start_time l \<noteq> -1 \<and> end_time l \<noteq> -1 then end_time l - start_time l else 0)"

section \<open>Text recovery (\<^verbatim>\<open>correct_utf16_extractor.py\<close>, \<^verbatim>\<open>code/kurohyou_csv_extractor.py\<close>)\<close>

text \<open>\<^verbatim>\<open>bytes.hex().upper()\<close> and \<^verbatim>\<open>bytes.fromhex\<close>; \<open>None\<close> stands for \<^verbatim>\<open>ValueError\<close>.\<close>

definition hex_digit :: "nat \<Rightarrow> char" where
  "hex_digit n = ''0123456789ABCDEF'' ! n"

definition bytes_hex_upper :: "byte list \<Rightarrow> string" where
  "bytes_hex_upper bs =
     concat (map (\<lambda>b. [hex_digit (unat b div 16), hex_digit (unat b mod 16)]) bs)"

definition hex_val :: "char \<Rightarrow> nat option" where
  "hex_val c =
     (let n = (of_char c :: nat) in
      if 48 \<le> n \<and> n \<le> 57 then Some (n - 48)
      else if 97 \<le> n \<and> n \<le> 102 then Some (n - 87)
      else if 65 \<le> n \<and> n \<le> 70 then Some (n - 55)
      else None)"

fun bytes_fromhex :: "string \<Rightarrow> byte list option" where
  "bytes_fromhex [] = Some []"
| "bytes_fromhex [c] = (if is_ascii_space (of_char c) then Some [] else None)"
| "bytes_fromhex (c # d # cs) =
     (if is_ascii_space (of_char c) then bytes_fromhex (d # cs)
      else
        case (hex_val c, hex_val d) of
          (Some h, Some l) \<Rightarrow> map_option ((#) (of_nat (16 * h + l))) (bytes_fromhex cs)
        | _ \<Rightarrow> None)"

text \<open>
  \<^verbatim>\<open>raw.decode('utf-16-le')\<close>. The bytes are paired into 16-bit code units, low byte
  first; a high surrogate must be followed by a low surrogate and the two make one scalar
  value. \<open>None\<close> stands for \<^verbatim>\<open>UnicodeDecodeError\<close>: an odd number of bytes, or a
  surrogate without its partner.
\<close>

fun code_units :: "byte list \<Rightarrow> nat list option" where
  "code_units [] = Some []"
| "code_units [b] = None"
| "code_units (lo # hi # bs) = map_option ((#) (unat lo + 256 * unat hi)) (code_units bs)"

fun utf16_scalars :: "nat list \<Rightarrow> pystr option" where
  "utf16_scalars [] = Some []"
| "utf16_scalars [u] = (if 0xD800 \<le> u \<and> u \<le> 0xDFFF then None else Some [u])"
| "utf16_scalars (u # v # us) =
     (if 0xD800 \<le> u \<and> u \<le> 0xDBFF then
        (if 0xDC00 \<le> v \<and> v \<le> 0xDFFF
         then map_option ((#) (0x10000 + (u - 0xD800) * 0x400 + (v - 0xDC00))) (utf16_scalars us)
         else None)
      else if 0xDC00 \<le> u \<and> u \<le> 0xDFFF then None
      else map_option ((#) u) (utf16_scalars (v # us)))"

definition decode_utf16_le :: "byte list \<Rightarrow> pystr option" where
  "decode_utf16_le raw = (case code_units raw of None \<Rightarrow> None | Some us \<Rightarrow> utf16_scalars us)"

text \<open>The bare \<^verbatim>\<open>except\<close> turns every error into the empty string.\<close>

definition decode_utf16le_japanese :: "string \<Rightarrow> pystr" where
  "decode_utf16le_japanese hex_bytes =
     (case bytes_fromhex hex_bytes of
        None \<Rightarrow> []
      | Some raw \<Rightarrow> (case decode_utf16_le raw of None \<Rightarrow> [] | Some s \<Rightarrow> rstrip_nul s))"

text \<open>The three script ranges tested by the extractors: Hiragana, Katakana, Kanji.\<close>

definition is_japanese :: "nat \<Rightarrow> bool" where
  "is_japanese c \<longleftrightarrow>
     (0x3040 \<le> c \<and> c \<le> 0x309F) \<or> (0x30A0 \<le> c \<and> c \<le> 0x30FF) \<or>
     (0x4E00 \<le> c \<and> c \<le> 0x9FAF)"

definition clean_text :: "pystr \<Rightarrow> pystr" where
  "clean_text decoded = filter (\<lambda>c. isprintable c \<or> is_japanese c) decoded"

text \<open>
  The body shared by the window loop and the null-terminator loop: decode the byte
  sequence, test the script ranges, clean and strip. The result is the pair appended to
  the list (hex string, text), or \<open>None\<close> when nothing is appended. \<open>min_len\<close> is the
  least accepted length of the stripped text: 1 in \<^verbatim>\<open>find_japanese_text_in_data\<close> and
  \<^verbatim>\<open>find_japanese_by_null_terminators\<close>, 2 in \<^verbatim>\<open>find_japanese_text_sequences\<close>.
\<close>

definition try_sequence :: "nat \<Rightarrow> byte list \<Rightarrow> (string \<times> pystr) option" where
  "try_sequence min_len sequence =
     (let hex_string = bytes_hex_upper sequence;
          decoded = decode_utf16le_japanese hex_string
      in if decoded \<noteq> [] \<and> list_ex is_japanese decoded then
           (let cleaned = clean_text decoded
            in if py_strip cleaned \<noteq> [] \<and> min_len \<le> length (py_strip cleaned)
               then Some (hex_string, py_strip cleaned) else None)
         else None)"

definition window_lengths :: "nat list" where
  "window_lengths = [20, 40, 60, 80, 100, 150, 200]"

text \<open>
  The \<^verbatim>\<open>for length in [...]\<close> loop at offset \<open>i\<close>: the first length that fits in the
  buffer and whose window is accepted ends the loop (\<^verbatim>\<open>break\<close>); \<open>None\<close> is the
  \<^verbatim>\<open>else\<close> branch of the loop.
\<close>

fun try_lengths :: "nat \<Rightarrow> byte list \<Rightarrow> nat \<Rightarrow> nat list \<Rightarrow> (string \<times> pystr \<times> nat) option" where
  "try_lengths min_len data i [] = None"
| "try_lengths min_len data i (len # lens) =
     (if i + len \<le> length data then
        (case try_sequence min_len (slice data i (i + len)) of
           Some (h, t) \<Rightarrow> Some (h, t, len)
         | None \<Rightarrow> try_lengths min_len data i lens)
      else try_lengths min_len data i lens)"

lemma try_lengths_member:
  "try_lengths min_len data i lens = Some (h, t, len) \<Longrightarrow> len \<in> set lens"
  by (induction lens) (auto split: if_splits option.splits)

text \<open>The \<^verbatim>\<open>while i < len(data) - 3\<close> loop.\<close>

function scan_windows ::
  "nat \<Rightarrow> byte list \<Rightarrow> nat \<Rightarrow> (string \<times> pystr \<times> nat) list \<Rightarrow> (string \<times> pystr \<times> nat) list" where
  "scan_windows min_len data i japanese_texts =
     (if int i < int (length data) - 3 then
        (case try_lengths min_len data i window_lengths of
           Some (h, t, len) \<Rightarrow> scan_windows min_len data (i + len) (japanese_texts @ [(h, t, i)])
         | None \<Rightarrow> scan_windows min_len data (i + 2) japanese_texts)
      else japanese_texts)"
  by pat_completeness auto
termination
proof (relation "measure (\<lambda>(min_len, data, i, acc). length data - i)", goal_cases)
  case 1
  show ?case by simp
next
  case 2
  then show ?case by simp
next
  case (3 min_len data i japanese_texts x2 h y t len)
  then have "try_lengths min_len data i window_lengths = Some (h, t, len)"
    by simp
  then have "len \<in> set window_lengths"
    by (rule try_lengths_member)
  then have "0 < len"
    by (auto simp: window_lengths_def)
  with 3 show ?case by simp
qed

declare scan_windows.simps [simp del]

definition find_japanese_text_in_data :: "byte list \<Rightarrow> (string \<times> pystr \<times> nat) list" where
  "find_japanese_text_in_data data = scan_windows 1 data 0 []"

definition find_japanese_text_sequences :: "byte list \<Rightarrow> (string \<times> pystr \<times> nat) list" where
  "find_japanese_text_sequences data = scan_windows 2 data 0 []"

text \<open>The positions of the two-byte terminator \<^verbatim>\<open>00 00\<close>, each search starting two bytes
  after the last hit.\<close>

lemma find_aux_bounds:
  "find_aux sub xs k \<noteq> -1 \<Longrightarrow>
     int k \<le> find_aux sub xs k \<and> find_aux sub xs k + int (length sub) \<le> int k + int (length xs)"
proof (induction xs arbitrary: k)
  case Nil
  then show ?case by (simp split: if_splits)
next
  case (Cons x xs)
  show ?case
  proof (cases "take (length sub) (x # xs) = sub")
    case True
    then have "length (take (length sub) (x # xs)) = length sub"
      by simp
    then have "length sub \<le> length (x # xs)"
      by (simp add: min_def split: if_splits)
    with True show ?thesis by simp
  next
    case False
    with Cons.prems have "find_aux sub xs (Suc k) \<noteq> -1" by simp
    from Cons.IH [OF this] False show ?thesis by simp
  qed
qed

lemma bytes_find_bounds:
  "bytes_find data sub start \<noteq> -1 \<Longrightarrow>
     int start \<le> bytes_find data sub start \<and>
     bytes_find data sub start + int (length sub) \<le> int (length data)"
  using find_aux_bounds [of sub "drop start data" start]
  by (auto simp: bytes_find_def split: if_splits)

definition null_pattern :: "byte list" where
  "null_pattern = [0, 0]"

function null_positions :: "byte list \<Rightarrow> nat \<Rightarrow> nat list \<Rightarrow> nat list" where
  "null_positions data start positions =
     (let pos = bytes_find data null_pattern start in
      if pos = -1 then positions
      else null_positions data (nat pos + 2) (positions @ [nat pos]))"
  by pat_completeness auto
termination
proof (relation "measure (\<lambda>(data, start, positions). Suc (length data) - start)")
  fix data :: "byte list" and start :: nat and positions :: "nat list" and x :: int
  assume "x = bytes_find data null_pattern start" and "x \<noteq> -1"
  then have "int start \<le> x \<and> x + 2 \<le> int (length data)"
    using bytes_find_bounds [of data null_pattern start] by (simp add: null_pattern_def)
  then show "((data, nat x + 2, positions @ [nat x]), (data, start, positions))
               \<in> measure (\<lambda>(data, start, positions). Suc (length data) - start)"
    by auto
qed auto

declare null_positions.simps [simp del]

text \<open>
  The loop \<^verbatim>\<open>for i in range(len(positions) - 1)\<close> over consecutive terminators
  \<open>p\<close>, \<open>q\<close>: \<^verbatim>\<open>start_pos\<close> is \<open>p + 2\<close> and \<^verbatim>\<open>end_pos\<close> is \<open>q\<close>.
\<close>

fun null_runs ::
  "byte list \<Rightarrow> nat list \<Rightarrow> (string \<times> pystr \<times> nat) list \<Rightarrow> (string \<times> pystr \<times> nat) list" where
  "null_runs data (p # q # ps) japanese_texts =
     (if int q - int (p + 2) > 4 then
        (case try_sequence 1 (slice data (p + 2) q) of
           Some (h, t) \<Rightarrow> null_runs data (q # ps) (japanese_texts @ [(h, t, p + 2)])
         | None \<Rightarrow> null_runs data (q # ps) japanese_texts)
      else null_runs data (q # ps) japanese_texts)"
| "null_runs data ps japanese_texts = japanese_texts"

definition find_japanese_by_null_terminators :: "byte list \<Rightarrow> (string \<times> pystr \<times> nat) list" where
  "find_japanese_by_null_terminators data = null_runs data (null_positions data 0 []) []"

text \<open>
  The merge of \<^verbatim>\<open>extract_japanese_from_pack_correct\<close>, on the decompressed buffer:
  the window results followed by the terminator results, then one pass that keeps a
  tuple when its text has not been seen.
\<close>

fun unique_loop ::
  "(string \<times> pystr \<times> nat) list \<Rightarrow> (string \<times> pystr \<times> nat) list \<Rightarrow> pystr set \<Rightarrow>
     (string \<times> pystr \<times> nat) list" where
  "unique_loop [] unique_texts seen_texts = unique_texts"
| "unique_loop ((hex_str, decoded, offset) # rest) unique_texts seen_texts =
     (if decoded \<notin> seen_texts \<and> 1 \<le> length decoded
      then unique_loop rest (unique_texts @ [(hex_str, decoded, offset)]) (insert decoded seen_texts)
      else unique_loop rest unique_texts seen_texts)"

definition merge_unique :: "(string \<times> pystr \<times> nat) list \<Rightarrow> (string \<times> pystr \<times> nat) list" where
  "merge_unique all_texts = unique_loop all_texts [] {}"

definition extract_japanese_from_pack_correct :: "byte list \<Rightarrow> (string \<times> pystr \<times> nat) list" where
  "extract_japanese_from_pack_correct data =
     merge_unique (find_japanese_text_sequences data @ find_japanese_by_null_terminators data)"

text \<open>
  \<^verbatim>\<open>s.encode('utf-16-le')\<close> for a string of scalar values (no surrogate code points),
  against which the decoder is checked.
\<close>

definition encode_unit :: "nat \<Rightarrow> byte list" where
  "encode_unit u = [of_nat (u mod 256), of_nat (u div 256)]"

fun encode_utf16_le :: "pystr \<Rightarrow> byte list" where
  "encode_utf16_le [] = []"
| "encode_utf16_le (c # cs) =
     (if c < 0x10000 then encode_unit c
      else encode_unit (0xD800 + (c - 0x10000) div 0x400) @
           encode_unit (0xDC00 + (c - 0x10000) mod 0x400)) @ encode_utf16_le cs"

text \<open>The fields of a result tuple \<^verbatim>\<open>(hex_string, decoded_text, offset)\<close>.\<close>

definition result_text :: "string \<times> pystr \<times> nat \<Rightarrow> pystr" where
  "result_text r = fst (snd r)"

definition result_offset :: "string \<times> pystr \<times> nat \<Rightarrow> nat" where
  "result_offset r = snd (snd r)"

section \<open>The PACK path of the extractor (\<^verbatim>\<open>_extract_pack_data\<close>)\<close>

text \<open>
  The class defines \<^verbatim>\<open>_extract_pack_data\<close> twice; the second definition replaces the
  first and is the one modelled. Its input here is the result of
  \<^verbatim>\<open>decompress_pack_file\<close>: the decompressed buffer, or \<open>None\<close> when decompression
  failed, together with the size of the compressed file.
\<close>

record pack_line =
  pk_line_id :: nat
  pk_text :: pystr
  pk_hex_data :: string
  pk_offset :: nat
  pk_length :: nat
  pk_is_dialogue :: bool

record pack_stats =
  pk_total_lines :: nat
  pk_dialogue_lines :: nat
  pk_pause_lines :: nat
  pk_total_chars :: nat
  pk_avg_chars :: rat
  pk_decompressed_size :: nat
  pk_compression_ratio :: rat

record pack_data =
  pk_lines :: "pack_line list"
  pk_stats :: pack_stats

text \<open>The loop over \<^verbatim>\<open>enumerate(japanese_texts)\<close>; \<open>i\<close> is the index of the next tuple.\<close>

fun pack_lines :: "nat \<Rightarrow> (string \<times> pystr \<times> nat) list \<Rightarrow> pack_line list" where
  "pack_lines i [] = []"
| "pack_lines i ((hex_string, decoded_text, offset) # rest) =
     (if py_strip decoded_text \<noteq> [] \<and> 1 \<le> length (py_strip decoded_text)
      then \<lparr>pk_line_id = i + 1, pk_text = py_strip decoded_text, pk_hex_data = hex_string,
            pk_offset = offset, pk_length = length (py_strip decoded_text),
            pk_is_dialogue = True\<rparr> # pack_lines (i + 1) rest
      else pack_lines (i + 1) rest)"

definition extract_pack_data :: "nat \<Rightarrow> byte list option \<Rightarrow> pack_data option" where
  "extract_pack_data compressed_size decompressed =
     (case decompressed of
        None \<Rightarrow> None
      | Some decompressed_data \<Rightarrow>
          let lines = pack_lines 0 (find_japanese_text_in_data decompressed_data);
              dialogue_lines = length lines;
              total_chars = sum_list (map pk_length lines)
          in Some \<lparr>pk_lines = lines,
                   pk_stats = \<lparr>pk_total_lines = length lines,
                     pk_dialogue_lines = dialogue_lines,
                     pk_pause_lines = 0,
                     pk_total_chars = total_chars,
                     pk_avg_chars = (if dialogue_lines > 0
                                     then of_nat total_chars / of_nat dialogue_lines else 0),
                     pk_decompressed_size = length decompressed_data,
                     pk_compression_ratio = (if length decompressed_data > 0
                        then of_nat compressed_size / of_nat (length decompressed_data) * 100
                        else 0)\<rparr>\<rparr>)"

section \<open>Container structure (\<^verbatim>\<open>analyze_pack_format.py\<close>)\<close>

definition ELPK :: "byte list" where
  "ELPK = [0x45, 0x4C, 0x50, 0x4B]"

definition KSEQ :: "byte list" where
  "KSEQ = [0x4B, 0x53, 0x45, 0x51]"

text \<open>The \<^verbatim>\<open>while True\<close> loop that collects the offsets of the tag \<^verbatim>\<open>KSEQ\<close>.\<close>

function kseq_scan :: "byte list \<Rightarrow> nat \<Rightarrow> nat list \<Rightarrow> nat list" where
  "kseq_scan data pos kseq_positions =
     (let found = bytes_find data KSEQ pos in
      if found = -1 then kseq_positions
      else kseq_scan data (nat found + 4) (kseq_positions @ [nat found]))"
  by pat_completeness auto
termination
proof (relation "measure (\<lambda>(data, pos, kseq_positions). Suc (length data) - pos)")
  fix data :: "byte list" and pos :: nat and kseq_positions :: "nat list" and x :: int
  assume "x = bytes_find data KSEQ pos" and "x \<noteq> -1"
  then have "int pos \<le> x \<and> x + 4 \<le> int (length data)"
    using bytes_find_bounds [of data KSEQ pos] by (simp add: KSEQ_def)
  then show "((data, nat x + 4, kseq_positions @ [nat x]), (data, pos, kseq_positions))
               \<in> measure (\<lambda>(data, pos, kseq_positions). Suc (length data) - pos)"
    by auto
qed auto

declare kseq_scan.simps [simp del]

text \<open>
  \<^verbatim>\<open>decode_special_japanese\<close>; \<open>None\<close> is Python's \<^verbatim>\<open>None\<close>. Its argument only holds
  characters from 32 to 126, for which \<^verbatim>\<open>isalpha\<close> is the test for an ASCII letter.
\<close>

definition isalpha :: "nat \<Rightarrow> bool" where
  "isalpha c \<longleftrightarrow> (65 \<le> c \<and> c \<le> 90) \<or> (97 \<le> c \<and> c \<le> 122)"

definition decode_special_japanese :: "pystr \<Rightarrow> pystr option" where
  "decode_special_japanese txt =
     (if (48 \<in> set txt \<and> 5 < length txt) \<or> list_ex (\<lambda>c. c \<in> set txt) (ascii ''JUMQV'')
      then Some (ascii ''[JAPON'' @ [0xC9] @ ascii ''S_CODIFICADO] '' @ txt)
      else if 3 \<le> length txt \<and> list_ex isalpha txt then Some txt
      else None)"

text \<open>\<^verbatim>\<open>if decoded: texts.append(decoded)\<close>\<close>

definition append_decoded :: "pystr list \<Rightarrow> pystr \<Rightarrow> pystr list" where
  "append_decoded texts current_text =
     (case decode_special_japanese current_text of
        None \<Rightarrow> texts
      | Some decoded \<Rightarrow> if decoded \<noteq> [] then texts @ [decoded] else texts)"

fun section_loop :: "byte list \<Rightarrow> pystr list \<Rightarrow> pystr \<Rightarrow> pystr list \<times> pystr" where
  "section_loop [] texts current_text = (texts, current_text)"
| "section_loop (b # bs) texts current_text =
     (if b = 0 then
        section_loop bs
          (if 3 \<le> length current_text then append_decoded texts current_text else texts) []
      else if 32 \<le> unat b \<and> unat b \<le> 126 then
        section_loop bs texts (current_text @ [unat b])
      else
        section_loop bs
          (if 2 \<le> length current_text then append_decoded texts current_text else texts) [])"

definition extract_japanese_from_section :: "byte list \<Rightarrow> pystr list" where
  "extract_japanese_from_section section_data =
     (let (texts, current_text) = section_loop section_data [] []
      in if 3 \<le> length current_text then append_decoded texts current_text else texts)"

text \<open>
  For each tag offset, the offset and the size of its section: up to the next tag, or up
  to the end of the buffer (of length \<open>n\<close>) for the last one.
\<close>

fun section_sizes :: "nat \<Rightarrow> nat list \<Rightarrow> (nat \<times> nat) list" where
  "section_sizes n [] = []"
| "section_sizes n [p] = [(p, n - p)]"
| "section_sizes n (p # q # ps) = (p, q - p) # section_sizes n (q # ps)"

record elpk_analysis =
  an_filename :: string
  total_size :: nat
  kseq_sections :: nat
  japanese_texts :: "pystr list"

text \<open>\<open>None\<close> is the error return after the message that no ELPK header was found.\<close>

definition analyze_elpk_structure :: "byte list \<Rightarrow> string \<Rightarrow> elpk_analysis option" where
  "analyze_elpk_structure data filename =
     (if slice data 0 4 \<noteq> ELPK then None
      else
        let kseq_positions = kseq_scan data 0 [];
            texts = concat (map (\<lambda>(kseq_pos, section_size).
                        extract_japanese_from_section (slice data kseq_pos (kseq_pos + section_size)))
                      (section_sizes (length data) kseq_positions))
        in Some \<lparr>an_filename = filename, total_size = length data,
                 kseq_sections = length kseq_positions, japanese_texts = texts\<rparr>)"

section \<open>The entry table (\<^verbatim>\<open>analyze_pepe_format.py\<close>)\<close>

text \<open>
  \<^verbatim>\<open>struct.unpack\<close> with the formats \<^verbatim>\<open><III\<close> and \<^verbatim>\<open><II\<close>: little-endian unsigned
  32-bit fields. \<open>None\<close> stands for \<^verbatim>\<open>struct.error\<close>, raised when the buffer has not
  exactly the size of the format.
\<close>

definition u32_le :: "byte \<Rightarrow> byte \<Rightarrow> byte \<Rightarrow> byte \<Rightarrow> nat" where
  "u32_le b0 b1 b2 b3 = unat b0 + 256 * unat b1 + 65536 * unat b2 + 16777216 * unat b3"

fun unpack_III :: "byte list \<Rightarrow> (nat \<times> nat \<times> nat) option" where
  "unpack_III [a0, a1, a2, a3, b0, b1, b2, b3, c0, c1, c2, c3] =
     Some (u32_le a0 a1 a2 a3, u32_le b0 b1 b2 b3, u32_le c0 c1 c2 c3)"
| "unpack_III bs = None"

fun unpack_II :: "byte list \<Rightarrow> (nat \<times> nat) option" where
  "unpack_II [a0, a1, a2, a3, b0, b1, b2, b3] = Some (u32_le a0 a1 a2 a3, u32_le b0 b1 b2 b3)"
| "unpack_II bs = None"

record entry =
  entry_index :: nat
  hash_id :: nat
  entry_offset :: nat
  entry_size :: nat
  entry_position :: nat

text \<open>
  The table loop. \<open>kseq_pos\<close> is the result of \<^verbatim>\<open>data.find(b'KSEQ')\<close>, so it is \<open>-1\<close>
  when the buffer has no such tag.
\<close>

function read_entries :: "byte list \<Rightarrow> int \<Rightarrow> nat \<Rightarrow> nat \<Rightarrow> entry list \<Rightarrow> entry list" where
  "read_entries data kseq_pos pos entry_count entries =
     (if int pos < kseq_pos \<and> entry_count < 50 then
        (case unpack_III (slice data pos (pos + 12)) of
           None \<Rightarrow> entries
         | Some (hash, off, sz) \<Rightarrow>
             if off > 0 \<and> off < length data \<and> sz > 0 \<and> sz < 10000
             then read_entries data kseq_pos (pos + 12) (entry_count + 1)
                    (entries @ [\<lparr>entry_index = entry_count, hash_id = hash,
                                  entry_offset = off, entry_size = sz,
                                  entry_position = pos\<rparr>])
             else entries)
      else entries)"
  by pat_completeness auto
termination
  by (relation "measure (\<lambda>(data, kseq_pos, pos, entry_count, entries). 50 - entry_count)") auto

declare read_entries.simps [simp del]

datatype error = StructError

text \<open>
  \<^verbatim>\<open>analyze_elpk_format\<close> on the bytes of the file, up to the entry table: the header
  read, the search for the first tag and the read after it, then the table from offset 20.
  The two reads outside the loop are not guarded, so a \<^verbatim>\<open>struct.error\<close> there ends the
  function.
\<close>

definition analyze_elpk_format :: "byte list \<Rightarrow> error + entry list" where
  "analyze_elpk_format data =
     (case unpack_III (slice data 8 20) of
        None \<Rightarrow> Inl StructError
      | Some header_values \<Rightarrow>
          let kseq_pos = bytes_find data KSEQ 0 in
          if kseq_pos \<noteq> -1 \<and> unpack_II (slice data (nat kseq_pos + 4) (nat kseq_pos + 12)) = None
          then Inl StructError
          else Inr (read_entries data kseq_pos 20 0 []))"


section \<open>Example buffers\<close>

text \<open>Ten times the Hiragana letter U+3042, in UTF-16-LE: 20 bytes without any tag.\<close>

definition ten_hiragana :: "byte list" where
  "ten_hiragana = [0x42, 0x30, 0x42, 0x30, 0x42, 0x30, 0x42, 0x30, 0x42, 0x30,
                   0x42, 0x30, 0x42, 0x30, 0x42, 0x30, 0x42, 0x30, 0x42, 0x30]"

text \<open>
  A 40-byte buffer in which the same text (three times U+3042) is found by the terminator
  search at offset 2 and by the window search at offset 20.
\<close>

definition two_strategy_buffer :: "byte list" where
  "two_strategy_buffer =
     [0x00, 0x00, 0x42, 0x30, 0x42, 0x30, 0x42, 0x30, 0x00, 0x00,
      0x44, 0x30, 0x44, 0x30, 0x44, 0x30, 0x44, 0x30, 0x44, 0x30,
      0x42, 0x30, 0x42, 0x30, 0x42, 0x30, 0x00, 0x00, 0x00, 0x00,
      0x00, 0x00, 0x00, 0x00, 0x00, 0x00, 0x00, 0x00, 0x00, 0x00]"

text \<open>The first ten characters of the first cue of the example file, all Katakana, Hiragana
  or Kanji.\<close>

definition maji_de :: pystr where
  "maji_de = [0x30DE, 0x30B8, 0x3067, 0x30E4, 0x30EB, 0x6C17, 0x306A, 0x306E, 0x304B, 0x3088]"

text \<open>
  A 32-byte file: the tag \<^verbatim>\<open>ELPK\<close>, four version bytes, twelve header bytes and one
  table record (identifier 1, offset 1, length 1). It holds no \<^verbatim>\<open>KSEQ\<close> tag.
\<close>

definition table_only :: "byte list" where
  "table_only = [0x45, 0x4C, 0x50, 0x4B, 0x01, 0x00, 0x00, 0x00,
                 0x00, 0x00, 0x00, 0x00, 0x00, 0x00, 0x00, 0x00, 0x00, 0x00, 0x00, 0x00,
                 0x01, 0x00, 0x00, 0x00, 0x01, 0x00, 0x00, 0x00, 0x01, 0x00, 0x00, 0x00]"

text \<open>The same file followed by a \<^verbatim>\<open>KSEQ\<close> tag and eight bytes.\<close>

definition table_and_tag :: "byte list" where
  "table_and_tag = table_only @ [0x4B, 0x53, 0x45, 0x51, 0, 0, 0, 0, 0, 0, 0, 0]"



section \<open>Properties of the frame conversions\<close>






section \<open>Properties of the timed-cue reader\<close>

text \<open>Unfolding the reader on a concrete file.\<close>

lemma split_max_two: "split_max sep 2 s = split_max sep (Suc (Suc 0)) s"
  by (simp add: numeral_2_eq_2)

lemmas csv_eval = split_max_two ascii_def py_strip_def isspace_def extract_csv_data_def
  csv_step_def csv_init_def make_stats_def py_int_def to_ascii_decimal_space_def
  long_from_string_def is_ascii_space_def is_digit_def digits_value_def
  frames_to_seconds_def KUROHYOU_FPS_def Let_def




lemma csv_step_cues:
  "list_all cue_ok (st_lines st) \<Longrightarrow> list_all cue_ok (st_lines (csv_step st nl))"
  by (auto simp: cue_ok_def csv_step_def Let_def split: option.splits)

lemma csv_foldl_cues:
  "list_all cue_ok (st_lines st) \<Longrightarrow> list_all cue_ok (st_lines (foldl csv_step st nls))"
  by (induction nls arbitrary: st) (simp_all add: csv_step_cues)




text \<open>
  C3, as the code has it. For every cue of the output, \<open>is_pause\<close> holds exactly when
  both frames are \<open>-1\<close>; the duration is the end frame minus the start frame when neither
  frame is \<open>-1\<close>, and 0 otherwise. No cue is rejected for its duration: a negative
  difference is stored as it is.
\<close>

theorem cue_invariant:
  "\<forall>cue \<in> set (csv_lines (extract_csv_data file)).
     (is_pause cue \<longleftrightarrow> start_time cue = -1 \<and> end_time cue = -1) \<and>
     duration cue =
       (if start_time cue \<noteq> -1 \<and> end_time cue \<noteq> -1 then end_time cue - start_time cue else 0)"
  using csv_foldl_cues [of csv_init "zip [1 ..< Suc (length file)] file"]
  by (simp add: extract_csv_data_def Let_def csv_init_def list_all_iff cue_ok_def)

lemma one_pause_frame_example:
  "csv_lines (extract_csv_data [ascii ''-1,5,y'']) =
     [\<lparr>line_id = 1, start_time = -1, end_time = 5, cue_text = ascii ''y'',
       duration = 0, is_pause = False\<rparr>]"
  by (simp add: csv_eval)

theorem cue_invariant_witness:
  "\<lparr>line_id = 1, start_time = -1, end_time = 5, cue_text = ascii ''y'',
     duration = 0, is_pause = False\<rparr> \<in> set (csv_lines (extract_csv_data [ascii ''-1,5,y''])) \<and>
   \<not> is_pause \<lparr>line_id = 1, start_time = -1, end_time = 5, cue_text = ascii ''y'',
     duration = 0, is_pause = False\<rparr> \<and>
   duration \<lparr>line_id = 1, start_time = -1, end_time = 5, cue_text = ascii ''y'',
     duration = 0, is_pause = False\<rparr> = 0"
  using cue_invariant [of "[ascii ''-1,5,y'']"] one_pause_frame_example
  by simp

text \<open>
  The line \<^verbatim>\<open>"10,5,x"\<close> is accepted with the negative duration \<open>-5\<close>: it is neither
  rejected nor clamped.
\<close>

theorem negative_duration_kept:
  "csv_lines (extract_csv_data [ascii ''10,5,x'']) =
     [\<lparr>line_id = 1, start_time = 10, end_time = 5, cue_text = ascii ''x'',
       duration = -5, is_pause = False\<rparr>]"
  by (simp add: csv_eval)

text \<open>
  C8. The line \<^verbatim>\<open>"542,596,..."\<close> of the example file yields the cue with frames 542 and
  596, duration 54 and no pause; \<^verbatim>\<open>"-1,-1,"\<close> followed by two ellipsis characters (U+2026) yields a pause of duration 0; the line
  \<^verbatim>\<open>"abc,def,text"\<close> yields nothing, alone or between two good lines. In general a line
  with fewer than three comma-separated parts, or whose first or second part is not an
  integer, leaves the whole state of the loop as it was.
\<close>

theorem cue_normalization_examples:
  "csv_lines (extract_csv_data
      [ascii ''542,596,'' @ [0x30DE, 0x30B8, 0x3067, 0x30E4, 0x30EB, 0x6C17, 0x306A, 0x306E,
                            0x304B, 0x3088, 0xFF1F]]) =
     [\<lparr>line_id = 1, start_time = 542, end_time = 596,
       cue_text = [0x30DE, 0x30B8, 0x3067, 0x30E4, 0x30EB, 0x6C17, 0x306A, 0x306E, 0x304B,
                   0x3088, 0xFF1F],
       duration = 54, is_pause = False\<rparr>] \<and>
   csv_lines (extract_csv_data [ascii ''-1,-1,'' @ [0x2026, 0x2026]]) =
     [\<lparr>line_id = 1, start_time = -1, end_time = -1, cue_text = [0x2026, 0x2026],
       duration = 0, is_pause = True\<rparr>] \<and>
   csv_lines (extract_csv_data [ascii ''abc,def,text'']) = [] \<and>
   map line_id (csv_lines (extract_csv_data
      [ascii ''542,596,x'', ascii ''abc,def,text'', ascii ''-1,-1,y''])) = [1, 3] \<and>
   (length (split_max 44 2 (py_strip l)) < 3 \<or>
    py_int (split_max 44 2 (py_strip l) ! 0) = None \<or>
    py_int (split_max 44 2 (py_strip l) ! 1) = None \<longrightarrow> csv_step st (n, l) = st)"
proof -
  have a: "csv_lines (extract_csv_data
      [ascii ''542,596,'' @ [0x30DE, 0x30B8, 0x3067, 0x30E4, 0x30EB, 0x6C17, 0x306A, 0x306E,
                            0x304B, 0x3088, 0xFF1F]]) =
     [\<lparr>line_id = 1, start_time = 542, end_time = 596,
       cue_text = [0x30DE, 0x30B8, 0x3067, 0x30E4, 0x30EB, 0x6C17, 0x306A, 0x306E, 0x304B,
                   0x3088, 0xFF1F],
       duration = 54, is_pause = False\<rparr>]"
    by (simp add: csv_eval)
  have b: "csv_lines (extract_csv_data [ascii ''-1,-1,'' @ [0x2026, 0x2026]]) =
     [\<lparr>line_id = 1, start_time = -1, end_time = -1, cue_text = [0x2026, 0x2026],
       duration = 0, is_pause = True\<rparr>]"
    by (simp add: csv_eval)
  have c: "csv_lines (extract_csv_data [ascii ''abc,def,text'']) = []"
    by (simp add: csv_eval)
  have d: "map line_id (csv_lines (extract_csv_data
      [ascii ''542,596,x'', ascii ''abc,def,text'', ascii ''-1,-1,y''])) = [1, 3]"
    by (simp add: csv_eval)
  have e: "length (split_max 44 2 (py_strip l)) < 3 \<or>
    py_int (split_max 44 2 (py_strip l) ! 0) = None \<or>
    py_int (split_max 44 2 (py_strip l) ! 1) = None \<longrightarrow> csv_step st (n, l) = st"
    by (auto simp: csv_step_def Let_def split: option.splits)
  from a b c d e show ?thesis by blast
qed

lemma abc_not_int: "py_int (split_max 44 2 (py_strip (ascii ''abc,def,text'')) ! 0) = None"
  by (simp add: csv_eval)

theorem cue_normalization_examples_witness:
  "py_int (split_max 44 2 (py_strip (ascii ''abc,def,text'')) ! 0) = None \<and>
   csv_step csv_init (1, ascii ''abc,def,text'') = csv_init"
  using cue_normalization_examples [of "ascii ''abc,def,text''" csv_init 1] abc_not_int
  by blast

section \<open>Properties of the text recovery\<close>

subsection \<open>Hexadecimal strings and the decoder\<close>

lemma hex_digit_val:
  assumes "n < 16"
  shows "hex_val (hex_digit n) = Some n" and "\<not> is_ascii_space (of_char (hex_digit n))"
proof -
  have "list_all (\<lambda>k. hex_val (hex_digit k) = Some k \<and> \<not> is_ascii_space (of_char (hex_digit k)))
          [0 ..< 16]"
    by (simp add: upt_rec hex_digit_def hex_val_def is_ascii_space_def)
  moreover from assms have "n \<in> set [0 ..< 16]"
    by simp
  ultimately have "hex_val (hex_digit n) = Some n \<and> \<not> is_ascii_space (of_char (hex_digit n))"
    unfolding list_all_iff by blast
  then show "hex_val (hex_digit n) = Some n" and "\<not> is_ascii_space (of_char (hex_digit n))"
    by simp_all
qed

lemma byte_nibbles: "of_nat (16 * (unat b div 16) + unat b mod 16) = (b :: byte)"
  by simp

lemma byte_high_nibble: "unat (b :: byte) div 16 < 16"
proof -
  have "unat b < 256" using unsigned_less [of b] by simp
  then show ?thesis by simp
qed

lemma bytes_fromhex_hex: "bytes_fromhex (bytes_hex_upper bs) = Some bs"
proof (induction bs)
  case Nil
  show ?case by (simp add: bytes_hex_upper_def)
next
  case (Cons b bs)
  have "bytes_hex_upper (b # bs) =
          hex_digit (unat b div 16) # hex_digit (unat b mod 16) # bytes_hex_upper bs"
    by (simp add: bytes_hex_upper_def)
  with Cons show ?case
    by (simp add: hex_digit_val byte_high_nibble byte_nibbles del: of_nat_add of_nat_mult)
qed

lemma decode_hex_roundtrip:
  "decode_utf16le_japanese (bytes_hex_upper bs) =
     (case decode_utf16_le bs of None \<Rightarrow> [] | Some s \<Rightarrow> rstrip_nul s)"
  by (simp add: decode_utf16le_japanese_def bytes_fromhex_hex)

lemma try_sequence_alt:
  "try_sequence m bs =
     (let decoded = (case decode_utf16_le bs of None \<Rightarrow> [] | Some s \<Rightarrow> rstrip_nul s)
      in if decoded \<noteq> [] \<and> list_ex is_japanese decoded then
           (if py_strip (clean_text decoded) \<noteq> [] \<and> m \<le> length (py_strip (clean_text decoded))
            then Some (bytes_hex_upper bs, py_strip (clean_text decoded)) else None)
         else None)"
  by (simp add: try_sequence_def Let_def decode_hex_roundtrip)

subsection \<open>Stripping\<close>

lemma list_ex_dropWhile:
  "list_ex P xs \<Longrightarrow> (\<And>x. P x \<Longrightarrow> \<not> Q x) \<Longrightarrow> list_ex P (dropWhile Q xs)"
  by (induction xs) auto

lemma japanese_not_space: "is_japanese c \<Longrightarrow> \<not> isspace c"
  by (auto simp: is_japanese_def isspace_def)

lemma japanese_nonempty: "list_ex is_japanese s \<Longrightarrow> s \<noteq> []"
  by auto

lemma py_strip_japanese: "list_ex is_japanese s \<Longrightarrow> list_ex is_japanese (py_strip s)"
  unfolding py_strip_def
  by (simp add: list_ex_dropWhile japanese_not_space)

lemma clean_text_japanese: "list_ex is_japanese s \<Longrightarrow> list_ex is_japanese (clean_text s)"
  by (auto simp: clean_text_def list_ex_iff)

lemma py_strip_idem: "py_strip (py_strip s) = py_strip s"
proof -
  let ?A = "dropWhile isspace s"
  let ?B = "rev (dropWhile isspace (rev ?A))"
  have "rev ?A = takeWhile isspace (rev ?A) @ dropWhile isspace (rev ?A)"
    by simp
  then have "rev (rev ?A) = rev (takeWhile isspace (rev ?A) @ dropWhile isspace (rev ?A))"
    by simp
  then have pre: "?A = ?B @ rev (takeWhile isspace (rev ?A))"
    by (simp only: rev_rev_ident rev_append)
  have left: "dropWhile isspace ?B = ?B"
  proof (cases ?B)
    case Nil
    show ?thesis by (simp only: Nil dropWhile.simps)
  next
    case (Cons b bs)
    with pre have "?A = b # (bs @ rev (takeWhile isspace (rev ?A)))" by simp
    then have "\<not> isspace b"
      by (metis hd_dropWhile list.sel(1) list.distinct(1))
    with Cons show ?thesis by simp
  qed
  have "py_strip ?B = rev (dropWhile isspace (rev (dropWhile isspace ?B)))"
    by (simp only: py_strip_def)
  also have "\<dots> = rev (dropWhile isspace (rev ?B))"
    by (simp only: left)
  also have "\<dots> = ?B"
    by simp
  finally show ?thesis by (simp only: py_strip_def)
qed

subsection \<open>What every accepted tuple satisfies\<close>

lemma try_sequence_japanese:
  "try_sequence m bs = Some (h, t) \<Longrightarrow> list_ex is_japanese t"
  by (auto simp: try_sequence_def Let_def py_strip_japanese clean_text_japanese split: if_splits)

lemma try_sequence_stripped:
  "try_sequence m bs = Some (h, t) \<Longrightarrow> py_strip t = t \<and> t \<noteq> []"
  by (auto simp: try_sequence_def Let_def py_strip_idem split: if_splits)

lemma try_lengths_all:
  assumes "\<And>m bs h t. try_sequence m bs = Some (h, t) \<Longrightarrow> Q t"
  shows "try_lengths m data i lens = Some (h, t, len) \<Longrightarrow> Q t"
  by (induction lens) (auto split: if_splits option.splits dest: assms)

lemma scan_windows_all:
  assumes step: "\<And>m bs h t. try_sequence m bs = Some (h, t) \<Longrightarrow> Q t"
  shows "\<forall>r \<in> set acc. Q (result_text r) \<Longrightarrow>
         \<forall>r \<in> set (scan_windows m data i acc). Q (result_text r)"
proof (induction m data i acc rule: scan_windows.induct)
  case (1 m data i acc)
  note unfold = scan_windows.simps [of m data i acc]
  show ?case
  proof (cases "int i < int (length data) - 3")
    case False
    then have "scan_windows m data i acc = acc"
      using unfold by simp
    with "1.prems" show ?thesis by simp
  next
    case True
    show ?thesis
    proof (cases "try_lengths m data i window_lengths")
      case None
      with True have "scan_windows m data i acc = scan_windows m data (i + 2) acc"
        using unfold by simp
      with "1.IH"(1) [OF True None "1.prems"] show ?thesis by simp
    next
      case (Some x)
      obtain h t len where x: "x = (h, t, len)" by (cases x) auto
      with Some have tl: "try_lengths m data i window_lengths = Some (h, t, len)" by simp
      have "Q t"
        by (rule try_lengths_all [where Q = Q, rotated, OF tl]) (rule step)
      with "1.prems" have "\<forall>r \<in> set (acc @ [(h, t, i)]). Q (result_text r)"
        by (auto simp: result_text_def)
      from "1.IH"(2) [OF True Some x [symmetric] refl this]
      have "\<forall>r \<in> set (scan_windows m data (i + len) (acc @ [(h, t, i)])). Q (result_text r)" .
      moreover have "scan_windows m data i acc = scan_windows m data (i + len) (acc @ [(h, t, i)])"
        using unfold True Some x by simp
      ultimately show ?thesis by simp
    qed
  qed
qed

lemma null_runs_all:
  assumes step: "\<And>m bs h t. try_sequence m bs = Some (h, t) \<Longrightarrow> Q t"
  shows "\<forall>r \<in> set acc. Q (result_text r) \<Longrightarrow>
         \<forall>r \<in> set (null_runs data ps acc). Q (result_text r)"
proof (induction data ps acc rule: null_runs.induct)
  case (1 data p q ps acc)
  note unfold = null_runs.simps(1) [of data p q ps acc]
  show ?case
  proof (cases "int q - int (p + 2) > 4")
    case False
    then have "null_runs data (p # q # ps) acc = null_runs data (q # ps) acc"
      using unfold by simp
    with "1.IH"(3) [OF False "1.prems"] show ?thesis by simp
  next
    case True
    show ?thesis
    proof (cases "try_sequence 1 (slice data (p + 2) q)")
      case None
      then have "null_runs data (p # q # ps) acc = null_runs data (q # ps) acc"
        using unfold True by simp
      with "1.IH"(1) [OF True None "1.prems"] show ?thesis by simp
    next
      case (Some x)
      obtain h t where x: "x = (h, t)" by (cases x) auto
      with Some have "Q t" by (auto dest: step)
      with "1.prems" have "\<forall>r \<in> set (acc @ [(h, t, p + 2)]). Q (result_text r)"
        by (auto simp: result_text_def)
      from "1.IH"(2) [OF True Some x [symmetric] this]
      have "\<forall>r \<in> set (null_runs data (q # ps) (acc @ [(h, t, p + 2)])). Q (result_text r)" .
      moreover have "null_runs data (p # q # ps) acc =
                       null_runs data (q # ps) (acc @ [(h, t, p + 2)])"
        using unfold True Some x by simp
      ultimately show ?thesis by simp
    qed
  qed
qed simp_all

lemma strategy_results_japanese:
  "\<forall>r \<in> set (find_japanese_text_in_data data). list_ex is_japanese (result_text r)"
  "\<forall>r \<in> set (find_japanese_text_sequences data). list_ex is_japanese (result_text r)"
  "\<forall>r \<in> set (find_japanese_by_null_terminators data). list_ex is_japanese (result_text r)"
  unfolding find_japanese_text_in_data_def find_japanese_text_sequences_def
    find_japanese_by_null_terminators_def
  by (rule scan_windows_all null_runs_all, erule try_sequence_japanese, simp)+

lemma strategy_a_stripped:
  "\<forall>r \<in> set (find_japanese_text_in_data data).
     py_strip (result_text r) = result_text r \<and> result_text r \<noteq> []"
  unfolding find_japanese_text_in_data_def
  by (rule scan_windows_all, erule try_sequence_stripped, simp)

subsection \<open>The merge\<close>

lemma unique_loop_subset:
  "set (unique_loop xs acc seen) \<subseteq> set acc \<union> set xs"
  by (induction xs acc seen rule: unique_loop.induct) (auto split: if_splits)

lemma unique_loop_append: "unique_loop xs acc seen = acc @ unique_loop xs [] seen"
proof (induction xs arbitrary: acc seen)
  case Nil
  show ?case by simp
next
  case (Cons x xs)
  obtain h d off where x: "x = (h, d, off)" by (cases x) auto
  show ?case
  proof (cases "d \<notin> seen \<and> 1 \<le> length d")
    case True
    with x have "unique_loop (x # xs) acc seen = (acc @ [x]) @ unique_loop xs [] (insert d seen)"
      using Cons.IH [of "acc @ [x]" "insert d seen"] by simp
    moreover from True x
    have "unique_loop (x # xs) [] seen = [x] @ unique_loop xs [] (insert d seen)"
      using Cons.IH [of "[x]" "insert d seen"] by simp
    ultimately show ?thesis by simp
  next
    case False
    with x Cons.IH [of acc seen] show ?thesis by auto
  qed
qed

lemma unique_loop_Cons:
  "unique_loop (x # xs) [] seen =
     (if result_text x \<notin> seen \<and> result_text x \<noteq> []
      then x # unique_loop xs [] (insert (result_text x) seen)
      else unique_loop xs [] seen)"
proof -
  obtain h d off where x: "x = (h, d, off)" by (cases x) auto
  have "1 \<le> length d \<longleftrightarrow> d \<noteq> []" by (cases d) auto
  with x unique_loop_append [of xs "[x]" "insert d seen"] show ?thesis
    by (simp add: result_text_def)
qed

lemma unique_loop_texts:
  "result_text ` set (unique_loop xs [] seen) =
     {t \<in> result_text ` set xs. t \<noteq> [] \<and> t \<notin> seen}"
proof (induction xs arbitrary: seen)
  case Nil
  show ?case by simp
next
  case (Cons x xs)
  show ?case
    unfolding unique_loop_Cons using Cons.IH by auto
qed

lemma unique_loop_distinct: "distinct (map result_text (unique_loop xs [] seen))"
proof (induction xs arbitrary: seen)
  case Nil
  show ?case by simp
next
  case (Cons x xs)
  have "result_text x \<notin> result_text ` set (unique_loop xs [] (insert (result_text x) seen))"
    unfolding unique_loop_texts by simp
  with Cons.IH show ?case
    unfolding unique_loop_Cons by simp
qed

lemma unique_loop_first:
  "r \<in> set (unique_loop xs [] seen) \<Longrightarrow>
     find (\<lambda>x. result_text x = result_text r) xs = Some r"
proof (induction xs arbitrary: seen)
  case Nil
  then show ?case by simp
next
  case (Cons x xs)
  show ?case
  proof (cases "result_text x \<notin> seen \<and> result_text x \<noteq> []")
    case True
    with Cons.prems have "r = x \<or> r \<in> set (unique_loop xs [] (insert (result_text x) seen))"
      unfolding unique_loop_Cons by simp
    then show ?thesis
    proof
      assume "r = x"
      then show ?thesis by simp
    next
      assume r: "r \<in> set (unique_loop xs [] (insert (result_text x) seen))"
      then have "result_text r \<in> result_text ` set (unique_loop xs [] (insert (result_text x) seen))"
        by (rule imageI)
      then have "result_text r \<noteq> result_text x"
        unfolding unique_loop_texts by auto
      with Cons.IH [OF r] show ?thesis by simp
    qed
  next
    case False
    with Cons.prems have r: "r \<in> set (unique_loop xs [] seen)"
      unfolding unique_loop_Cons by simp
    then have "result_text r \<in> result_text ` set (unique_loop xs [] seen)"
      by (rule imageI)
    then have "result_text r \<noteq> [] \<and> result_text r \<notin> seen"
      unfolding unique_loop_texts by auto
    with False have "result_text x \<noteq> result_text r" by auto
    with Cons.IH [OF r] show ?thesis by simp
  qed
qed

subsection \<open>Encoding and decoding strings of script characters\<close>

lemma code_units_encode:
  "list_all is_japanese s \<Longrightarrow> code_units (encode_utf16_le s) = Some s"
proof (induction s)
  case Nil
  show ?case by simp
next
  case (Cons c cs)
  then have c: "c < 0x10000" and cs: "code_units (encode_utf16_le cs) = Some cs"
    by (auto simp: is_japanese_def)
  from c have "c div 256 < 256" by simp
  then have "unat (of_nat (c mod 256) :: byte) + 256 * unat (of_nat (c div 256) :: byte) = c"
    by (simp add: unat_of_nat)
  with c cs show ?case
    by (simp add: encode_unit_def)
qed

lemma utf16_scalars_plain:
  "list_all (\<lambda>c. c < 0xD800 \<or> 0xDFFF < c) s \<Longrightarrow> utf16_scalars s = Some s"
  by (induction s rule: utf16_scalars.induct) auto

lemma japanese_plain: "list_all is_japanese s \<Longrightarrow> list_all (\<lambda>c. c < 0xD800 \<or> 0xDFFF < c) s"
  by (induction s) (auto simp: is_japanese_def)

lemma rstrip_nul_japanese: "list_all is_japanese s \<Longrightarrow> rstrip_nul s = s"
proof (cases s rule: rev_cases)
  case Nil
  then show ?thesis by (simp add: rstrip_nul_def)
next
  case (snoc ys y)
  assume "list_all is_japanese s"
  with snoc have "y \<noteq> 0" by (auto simp: is_japanese_def)
  with snoc show ?thesis by (simp add: rstrip_nul_def)
qed

lemma decode_encode_japanese:
  "list_all is_japanese s \<Longrightarrow> decode_utf16le_japanese (bytes_hex_upper (encode_utf16_le s)) = s"
  by (simp add: decode_hex_roundtrip decode_utf16_le_def code_units_encode
        utf16_scalars_plain japanese_plain rstrip_nul_japanese)

lemma clean_text_all_japanese: "list_all is_japanese s \<Longrightarrow> clean_text s = s"
  by (simp add: clean_text_def list_all_iff)

lemma py_strip_all_japanese: "list_all is_japanese s \<Longrightarrow> py_strip s = s"
proof (cases s)
  case Nil
  then show ?thesis by (simp add: py_strip_def)
next
  case (Cons c cs)
  assume a: "list_all is_japanese s"
  with Cons have "\<not> isspace c" by (simp add: japanese_not_space)
  with Cons have l: "dropWhile isspace s = s" by simp
  from Cons have "s \<noteq> []" by simp
  then obtain ys y where s: "s = ys @ [y]" by (metis rev_exhaust)
  with a have "\<not> isspace y" by (simp add: japanese_not_space)
  with s have "dropWhile isspace (rev s) = rev s" by simp
  with l show ?thesis by (simp add: py_strip_def)
qed

lemma length_encode_japanese:
  "list_all is_japanese s \<Longrightarrow> length (encode_utf16_le s) = 2 * length s"
  by (induction s) (auto simp: is_japanese_def encode_unit_def)

lemma try_sequence_encode:
  assumes "list_all is_japanese s" and "s \<noteq> []" and "m \<le> length s"
  shows "try_sequence m (encode_utf16_le s) = Some (bytes_hex_upper (encode_utf16_le s), s)"
proof -
  from assms(1,2) have "list_ex is_japanese s"
    by (cases s) auto
  with assms show ?thesis
    by (simp add: try_sequence_def Let_def decode_encode_japanese clean_text_all_japanese
          py_strip_all_japanese)
qed

lemma strategy_a_ten:
  assumes "length s = 10" and "list_all is_japanese s"
  shows "find_japanese_text_in_data (encode_utf16_le s) =
           [(bytes_hex_upper (encode_utf16_le s), s, 0)]"
proof -
  let ?d = "encode_utf16_le s"
  from assms have len: "length ?d = 20" by (simp add: length_encode_japanese)
  from assms have "s \<noteq> []" by auto
  with assms have "try_sequence 1 ?d = Some (bytes_hex_upper ?d, s)"
    by (simp add: try_sequence_encode)
  with len have t: "try_lengths 1 ?d 0 window_lengths = Some (bytes_hex_upper ?d, s, 20)"
    by (simp add: window_lengths_def slice_def)
  have "scan_windows 1 ?d 0 [] = scan_windows 1 ?d 20 [(bytes_hex_upper ?d, s, 0)]"
    using scan_windows.simps [of 1 ?d 0 "[]"] len t by simp
  also have "\<dots> = [(bytes_hex_upper ?d, s, 0)]"
    using scan_windows.simps [of 1 ?d 20 "[(bytes_hex_upper ?d, s, 0)]"] len by simp
  finally show ?thesis by (simp add: find_japanese_text_in_data_def)
qed

lemma short_buffer: "length data \<le> 3 \<Longrightarrow> scan_windows m data 0 [] = []"
  using scan_windows.simps [of m data 0 "[]"] by simp

subsection \<open>The example buffers, evaluated\<close>

lemma isprintable_nul: "\<not> isprintable 0"
  by (simp add: isprintable_def nonprintable_ranges_def)

lemma isprintable_hiragana_a: "isprintable 0x3042"
  by (simp add: isprintable_def nonprintable_ranges_def)

lemma isprintable_hiragana_i: "isprintable 0x3044"
  by (simp add: isprintable_def nonprintable_ranges_def)

lemmas text_eval = try_sequence_alt decode_utf16_le_def rstrip_nul_def clean_text_def
  py_strip_def isspace_def is_japanese_def bytes_hex_upper_def hex_digit_def slice_def
  window_lengths_def isprintable_nul isprintable_hiragana_a isprintable_hiragana_i Let_def

lemma decode_fixture: "decode_utf16le_japanese ''8D9F'' = [0x9F8D]"
  by (simp add: decode_utf16le_japanese_def hex_val_def is_ascii_space_def decode_utf16_le_def
        rstrip_nul_def)

lemma strategy_a_ten_hiragana:
  "find_japanese_text_in_data ten_hiragana =
     [(''4230423042304230423042304230423042304230'',
       [0x3042, 0x3042, 0x3042, 0x3042, 0x3042, 0x3042, 0x3042, 0x3042, 0x3042, 0x3042], 0)]"
  by (simp add: find_japanese_text_in_data_def ten_hiragana_def scan_windows.simps text_eval)

lemma sequences_two_strategy:
  "find_japanese_text_sequences two_strategy_buffer =
     [(''0000423042304230000044304430443044304430'',
       [0x3042, 0x3042, 0x3042, 0x3044, 0x3044, 0x3044, 0x3044, 0x3044], 0),
      (''4230423042300000000000000000000000000000'', [0x3042, 0x3042, 0x3042], 20)]"
  by (simp add: find_japanese_text_sequences_def two_strategy_buffer_def scan_windows.simps
        text_eval)

lemma null_positions_two_strategy:
  "null_positions two_strategy_buffer 0 [] = [0, 8, 26, 28, 30, 32, 34, 36, 38]"
  by (simp add: two_strategy_buffer_def null_positions.simps bytes_find_def null_pattern_def)

lemma terminators_two_strategy:
  "find_japanese_by_null_terminators two_strategy_buffer =
     [(''423042304230'', [0x3042, 0x3042, 0x3042], 2),
      (''44304430443044304430423042304230'',
       [0x3044, 0x3044, 0x3044, 0x3044, 0x3044, 0x3042, 0x3042, 0x3042], 10)]"
  by (simp add: find_japanese_by_null_terminators_def null_positions_two_strategy)
     (simp add: two_strategy_buffer_def text_eval)

lemma extract_two_strategy:
  "extract_japanese_from_pack_correct two_strategy_buffer =
     [(''0000423042304230000044304430443044304430'',
       [0x3042, 0x3042, 0x3042, 0x3044, 0x3044, 0x3044, 0x3044, 0x3044], 0),
      (''4230423042300000000000000000000000000000'', [0x3042, 0x3042, 0x3042], 20),
      (''44304430443044304430423042304230'',
       [0x3044, 0x3044, 0x3044, 0x3044, 0x3044, 0x3042, 0x3042, 0x3042], 10)]"
  by (simp add: extract_japanese_from_pack_correct_def merge_unique_def sequences_two_strategy
        terminators_two_strategy)

lemma pack_lines_results:
  "\<forall>r \<in> set rs. py_strip (result_text r) = result_text r \<and> result_text r \<noteq> [] \<Longrightarrow>
     map (\<lambda>l. (pk_hex_data l, pk_text l, pk_offset l)) (pack_lines i rs) = rs"
proof (induction rs arbitrary: i)
  case Nil
  show ?case by simp
next
  case (Cons r rs)
  obtain h t off where r: "r = (h, t, off)" by (cases r) auto
  with Cons.prems have t: "py_strip t = t" "t \<noteq> []" by (auto simp: result_text_def)
  then have "1 \<le> length t" by (cases t) auto
  with r t Cons show ?case by simp
qed

subsection \<open>The claims about the text recovery\<close>

text \<open>
  C6. Every tuple accepted by the window search (either variant), by the terminator search
  or kept by the merge has a text that contains at least one Hiragana (U+3040 to U+309F),
  Katakana (U+30A0 to U+30FF) or Kanji (U+4E00 to U+9FAF) character, also after stripping.
\<close>

theorem accepted_text_has_script_char:
  "\<forall>r \<in> set (find_japanese_text_in_data data) \<union> set (find_japanese_text_sequences data) \<union>
          set (find_japanese_by_null_terminators data) \<union>
          set (extract_japanese_from_pack_correct data).
     list_ex is_japanese (result_text r) \<and> list_ex is_japanese (py_strip (result_text r))"
proof -
  have "set (extract_japanese_from_pack_correct data) \<subseteq>
          set (find_japanese_text_sequences data) \<union> set (find_japanese_by_null_terminators data)"
    using unique_loop_subset [of "find_japanese_text_sequences data @
      find_japanese_by_null_terminators data" "[]" "{}"]
    unfolding extract_japanese_from_pack_correct_def merge_unique_def by auto
  with strategy_results_japanese [of data] show ?thesis
    by (auto simp: py_strip_japanese)
qed

theorem accepted_text_has_script_char_witness:
  "(''4230423042300000000000000000000000000000'', [0x3042, 0x3042, 0x3042], 20)
     \<in> set (extract_japanese_from_pack_correct two_strategy_buffer) \<and>
   list_ex is_japanese [0x3042, 0x3042, 0x3042] \<and>
   list_ex is_japanese (py_strip [0x3042, 0x3042, 0x3042])"
proof -
  have m: "(''4230423042300000000000000000000000000000'', [0x3042, 0x3042, 0x3042], 20)
          \<in> set (find_japanese_text_in_data two_strategy_buffer) \<union>
            set (find_japanese_text_sequences two_strategy_buffer) \<union>
            set (find_japanese_by_null_terminators two_strategy_buffer) \<union>
            set (extract_japanese_from_pack_correct two_strategy_buffer)"
    by (simp add: extract_two_strategy)
  from accepted_text_has_script_char [of two_strategy_buffer, THEN bspec, OF m]
  show ?thesis
    by (simp add: result_text_def extract_two_strategy)
qed

text \<open>
  C4, as the code has it. For every string of characters from the three script ranges, the
  decoder applied to the hexadecimal form of its UTF-16-LE encoding gives the string back;
  the window search gives the string back, as one tuple at offset 0, when the string has
  exactly ten characters, so that its encoding fills the shortest window of 20 bytes; and
  the bytes \<^verbatim>\<open>8D 9F\<close> decode to the single Kanji U+9F8D.
\<close>

theorem utf16_round_trip:
  "(list_all is_japanese s \<longrightarrow>
      decode_utf16le_japanese (bytes_hex_upper (encode_utf16_le s)) = s) \<and>
   (length s = 10 \<and> list_all is_japanese s \<longrightarrow>
      find_japanese_text_in_data (encode_utf16_le s) =
        [(bytes_hex_upper (encode_utf16_le s), s, 0)]) \<and>
   decode_utf16le_japanese ''8D9F'' = [0x9F8D] \<and> is_japanese 0x9F8D"
  using decode_encode_japanese [of s] strategy_a_ten [of s] decode_fixture
  by (simp add: is_japanese_def)

lemma maji_de_japanese: "length maji_de = 10 \<and> list_all is_japanese maji_de"
  by (simp add: maji_de_def is_japanese_def)

lemma maji_de_encoded:
  "encode_utf16_le maji_de =
     [0xDE, 0x30, 0xB8, 0x30, 0x67, 0x30, 0xE4, 0x30, 0xEB, 0x30,
      0x17, 0x6C, 0x6A, 0x30, 0x6E, 0x30, 0x4B, 0x30, 0x88, 0x30]"
  by (simp add: maji_de_def encode_unit_def)

theorem utf16_round_trip_witness:
  "length maji_de = 10 \<and> list_all is_japanese maji_de \<and>
   decode_utf16le_japanese ''DE30B8306730E430EB30176C6A306E304B308830'' = maji_de \<and>
   find_japanese_text_in_data
     [0xDE, 0x30, 0xB8, 0x30, 0x67, 0x30, 0xE4, 0x30, 0xEB, 0x30,
      0x17, 0x6C, 0x6A, 0x30, 0x6E, 0x30, 0x4B, 0x30, 0x88, 0x30] =
     [(''DE30B8306730E430EB30176C6A306E304B308830'', maji_de, 0)]"
  using utf16_round_trip [of maji_de] maji_de_japanese
  by (simp add: maji_de_encoded bytes_hex_upper_def hex_digit_def)

text \<open>
  The one-character string U+9F8D is encoded as the two bytes \<^verbatim>\<open>8D 9F\<close>, and the window
  search finds nothing in them: no window fits in a buffer shorter than 20 bytes.
\<close>

theorem strategy_a_short_string:
  "encode_utf16_le [0x9F8D] = [0x8D, 0x9F] \<and> find_japanese_text_in_data [0x8D, 0x9F] = []"
  by (simp add: encode_unit_def find_japanese_text_in_data_def short_buffer)

text \<open>
  C2, as the code has it. The merged list holds the results of the window search in scan
  order, followed by the results of the terminator search. The final list has no two
  tuples with the same text, has every text of the merged list, and each of its tuples is
  the first tuple of the merged list with that text, whatever its offset; no tuple has an
  empty text after stripping.
\<close>

theorem dedup_keeps_first_merged:
  "distinct (map result_text (extract_japanese_from_pack_correct data)) \<and>
   result_text ` set (extract_japanese_from_pack_correct data) =
     result_text ` set (find_japanese_text_sequences data @ find_japanese_by_null_terminators data) \<and>
   (\<forall>r \<in> set (extract_japanese_from_pack_correct data).
      find (\<lambda>x. result_text x = result_text r)
        (find_japanese_text_sequences data @ find_japanese_by_null_terminators data) = Some r \<and>
      py_strip (result_text r) \<noteq> [])"
proof -
  let ?all = "find_japanese_text_sequences data @ find_japanese_by_null_terminators data"
  have res: "extract_japanese_from_pack_correct data = unique_loop ?all [] {}"
    by (simp add: extract_japanese_from_pack_correct_def merge_unique_def)
  have jp: "\<forall>r \<in> set ?all. list_ex is_japanese (result_text r)"
    using strategy_results_japanese [of data] by auto
  then have ne: "\<forall>r \<in> set ?all. result_text r \<noteq> []"
    using japanese_nonempty by blast
  have "result_text ` set (unique_loop ?all [] {}) = result_text ` set ?all"
    unfolding unique_loop_texts using ne by auto
  moreover have "\<forall>r \<in> set (unique_loop ?all [] {}).
      find (\<lambda>x. result_text x = result_text r) ?all = Some r \<and> py_strip (result_text r) \<noteq> []"
  proof
    fix r assume r: "r \<in> set (unique_loop ?all [] {})"
    then have "r \<in> set ?all" using unique_loop_subset [of ?all "[]" "{}"] by auto
    with jp have "list_ex is_japanese (py_strip (result_text r))"
      by (simp add: py_strip_japanese)
    then have "py_strip (result_text r) \<noteq> []" by (rule japanese_nonempty)
    with unique_loop_first [OF r]
    show "find (\<lambda>x. result_text x = result_text r) ?all = Some r \<and>
          py_strip (result_text r) \<noteq> []" by simp
  qed
  ultimately show ?thesis
    unfolding res using unique_loop_distinct [of ?all "{}"] by simp
qed

theorem dedup_keeps_first_merged_witness:
  "(''4230423042300000000000000000000000000000'', [0x3042, 0x3042, 0x3042], 20)
     \<in> set (extract_japanese_from_pack_correct two_strategy_buffer) \<and>
   find (\<lambda>x. result_text x = [0x3042, 0x3042, 0x3042])
     (find_japanese_text_sequences two_strategy_buffer @
      find_japanese_by_null_terminators two_strategy_buffer) =
     Some (''4230423042300000000000000000000000000000'', [0x3042, 0x3042, 0x3042], 20) \<and>
   py_strip [0x3042, 0x3042, 0x3042] \<noteq> []"
proof -
  have "(''4230423042300000000000000000000000000000'', [0x3042, 0x3042, 0x3042], 20)
          \<in> set (extract_japanese_from_pack_correct two_strategy_buffer)"
    by (simp add: extract_two_strategy)
  with dedup_keeps_first_merged [of two_strategy_buffer] show ?thesis
    by (auto simp: result_text_def)
qed

text \<open>
  In the example buffer the text of three U+3042 is found at offset 2 by the terminator
  search and at offset 20 by the window search. The final list keeps the tuple of offset
  20 and drops the tuple of offset 2: the first occurrence by ascending offset is not the
  one kept.
\<close>

theorem dedup_not_by_offset:
  "(''423042304230'', [0x3042, 0x3042, 0x3042], 2)
     \<in> set (find_japanese_by_null_terminators two_strategy_buffer) \<and>
   (''4230423042300000000000000000000000000000'', [0x3042, 0x3042, 0x3042], 20)
     \<in> set (extract_japanese_from_pack_correct two_strategy_buffer) \<and>
   (''423042304230'', [0x3042, 0x3042, 0x3042], 2)
     \<notin> set (extract_japanese_from_pack_correct two_strategy_buffer)"
  by (simp add: extract_two_strategy terminators_two_strategy)

text \<open>
  C1, as the code has it. \<^verbatim>\<open>analyze_elpk_structure\<close> fails, with no result at all, on
  every decompressed buffer that does not begin with the four bytes \<^verbatim>\<open>ELPK\<close>.
  \<^verbatim>\<open>_extract_pack_data\<close> fails when decompression failed; on a decompressed buffer it
  makes no test of the root tag and returns one line for each tuple of the window search,
  with that tuple's hex string, text and offset.
\<close>

theorem root_tag_check:
  "(slice data 0 4 \<noteq> ELPK \<longrightarrow> analyze_elpk_structure data filename = None) \<and>
   extract_pack_data compressed_size None = None \<and>
   map_option (\<lambda>d. map (\<lambda>l. (pk_hex_data l, pk_text l, pk_offset l)) (pk_lines d))
     (extract_pack_data compressed_size (Some data)) = Some (find_japanese_text_in_data data)"
  using pack_lines_results [OF strategy_a_stripped [of data], where i = 0]
  by (simp add: analyze_elpk_structure_def extract_pack_data_def Let_def)

lemma ten_hiragana_no_tag: "slice ten_hiragana 0 4 \<noteq> ELPK"
  by (simp add: ten_hiragana_def slice_def ELPK_def)

theorem root_tag_check_witness:
  "slice ten_hiragana 0 4 \<noteq> ELPK \<and> analyze_elpk_structure ten_hiragana ''main_seq01.pack'' = None"
  using root_tag_check [of ten_hiragana "''main_seq01.pack''"] ten_hiragana_no_tag
  by simp

text \<open>
  The buffer of ten Hiragana letters does not begin with \<^verbatim>\<open>ELPK\<close>, and the PACK path
  of the extractor returns a line with its text.
\<close>

theorem pack_path_ignores_root_tag:
  "slice ten_hiragana 0 4 \<noteq> ELPK \<and>
   map_option (\<lambda>d. map pk_text (pk_lines d)) (extract_pack_data 30 (Some ten_hiragana)) =
     Some [[0x3042, 0x3042, 0x3042, 0x3042, 0x3042, 0x3042, 0x3042, 0x3042, 0x3042, 0x3042]]"
  by (simp add: ten_hiragana_no_tag extract_pack_data_def strategy_a_ten_hiragana Let_def
        py_strip_def isspace_def)

section \<open>Properties of the container scanner\<close>

subsection \<open>What \<^verbatim>\<open>bytes.find\<close> returns\<close>





subsection \<open>The tag scan\<close>
















section \<open>Properties of the entry table reader\<close>

lemma read_entries_plausible:
  "\<forall>e \<in> set entries. 0 < entry_offset e \<and> entry_offset e < length data \<and>
       0 < entry_size e \<and> entry_size e < 10000 \<Longrightarrow>
   \<forall>e \<in> set (read_entries data kseq_pos pos entry_count entries).
       0 < entry_offset e \<and> entry_offset e < length data \<and>
       0 < entry_size e \<and> entry_size e < 10000"
proof (induction data kseq_pos pos entry_count entries rule: read_entries.induct)
  case (1 data kseq_pos pos entry_count entries)
  note unfold = read_entries.simps [of data kseq_pos pos entry_count entries]
  show ?case
  proof (cases "int pos < kseq_pos \<and> entry_count < 50")
    case False
    with unfold "1.prems" show ?thesis by simp
  next
    case True
    show ?thesis
    proof (cases "unpack_III (slice data pos (pos + 12))")
      case None
      with True unfold "1.prems" show ?thesis by simp
    next
      case (Some x)
      obtain hash off sz where x: "x = (hash, off, sz)" by (cases x) auto
      show ?thesis
      proof (cases "off > 0 \<and> off < length data \<and> sz > 0 \<and> sz < 10000")
        case False
        with True Some x unfold "1.prems" show ?thesis by auto
      next
        case ok: True
        let ?e = "\<lparr>entry_index = entry_count, hash_id = hash, entry_offset = off,
                   entry_size = sz, entry_position = pos\<rparr>"
        from ok "1.prems"
        have "\<forall>e \<in> set (entries @ [?e]). 0 < entry_offset e \<and> entry_offset e < length data \<and>
                0 < entry_size e \<and> entry_size e < 10000" by auto
        from "1.IH" [OF True Some x [symmetric] refl ok this]
        have "\<forall>e \<in> set (read_entries data kseq_pos (pos + 12) (entry_count + 1) (entries @ [?e])).
                0 < entry_offset e \<and> entry_offset e < length data \<and>
                0 < entry_size e \<and> entry_size e < 10000" .
        moreover have "read_entries data kseq_pos pos entry_count entries =
            read_entries data kseq_pos (pos + 12) (entry_count + 1) (entries @ [?e])"
          using unfold True Some x ok by simp
        ultimately show ?thesis by simp
      qed
    qed
  qed
qed

lemma read_entries_no_tag: "read_entries data (-1) pos n entries = entries"
  using read_entries.simps [of data "-1" pos n entries] by simp

text \<open>
  C5. The table is read up to the first tag \<^verbatim>\<open>KSEQ\<close>. Without any tag in the buffer the
  stop offset is the \<open>-1\<close> returned by the search, not the end of the buffer, so the record
  of the example file is not read; with a tag after the table it is.
\<close>

theorem entry_table_without_tag:
  "analyze_elpk_format table_only = Inr [] \<and>
   analyze_elpk_format table_and_tag =
     Inr [\<lparr>entry_index = 0, hash_id = 1, entry_offset = 1, entry_size = 1, entry_position = 20\<rparr>]"
proof -
  have "analyze_elpk_format table_only = Inr []"
    by (simp add: analyze_elpk_format_def table_only_def slice_def bytes_find_def KSEQ_def
          read_entries_no_tag Let_def)
  moreover have "analyze_elpk_format table_and_tag =
     Inr [\<lparr>entry_index = 0, hash_id = 1, entry_offset = 1, entry_size = 1, entry_position = 20\<rparr>]"
    by (simp add: analyze_elpk_format_def table_and_tag_def table_only_def slice_def
          bytes_find_def KSEQ_def read_entries.simps u32_le_def Let_def)
  ultimately show ?thesis by simp
qed

end

